theory Spec2Isabelle
  imports Main "HOL-Library.Sublist" "HOL-Library.Multiset"
begin

section \<open>Python strings and dictionaries\<close>

text \<open>
  A Python \<open>str\<close> is read as the list of the bytes of its UTF-8 encoding. Searching for a
  substring, splitting and testing a prefix give the same on the bytes as on the code
  points, because the encoding of a code point never begins inside the encoding of
  another. Whitespace is what \<open>str.isspace\<close> and the regex class \<open>\s\<close> accept: the code
  points U+0009 to U+000D, U+001C to U+0020, U+0085, U+00A0, U+1680, U+2000 to U+200A,
  U+2028, U+2029, U+202F, U+205F and U+3000, listed by their encodings.
\<close>

definition py_whitespace :: "string list" where
  "py_whitespace =
     [[CHR 0x09], [CHR 0x0A], [CHR 0x0B], [CHR 0x0C], [CHR 0x0D],
      [CHR 0x1C], [CHR 0x1D], [CHR 0x1E], [CHR 0x1F], [CHR 0x20],
      [CHR 0xC2, CHR 0x85], [CHR 0xC2, CHR 0xA0],
      [CHR 0xE1, CHR 0x9A, CHR 0x80],
      [CHR 0xE2, CHR 0x80, CHR 0x80], [CHR 0xE2, CHR 0x80, CHR 0x81],
      [CHR 0xE2, CHR 0x80, CHR 0x82], [CHR 0xE2, CHR 0x80, CHR 0x83],
      [CHR 0xE2, CHR 0x80, CHR 0x84], [CHR 0xE2, CHR 0x80, CHR 0x85],
      [CHR 0xE2, CHR 0x80, CHR 0x86], [CHR 0xE2, CHR 0x80, CHR 0x87],
      [CHR 0xE2, CHR 0x80, CHR 0x88], [CHR 0xE2, CHR 0x80, CHR 0x89],
      [CHR 0xE2, CHR 0x80, CHR 0x8A],
      [CHR 0xE2, CHR 0x80, CHR 0xA8], [CHR 0xE2, CHR 0x80, CHR 0xA9],
      [CHR 0xE2, CHR 0x80, CHR 0xAF],
      [CHR 0xE2, CHR 0x81, CHR 0x9F],
      [CHR 0xE3, CHR 0x80, CHR 0x80]]"

text \<open>
  Dropping, from the front of \<open>s\<close>, every leading occurrence of one of the sequences
  \<open>ws\<close>, until none is a prefix.
\<close>

fun strip_leading :: "string list \<Rightarrow> string \<Rightarrow> string" where
  "strip_leading ws [] = []"
| "strip_leading ws (c # cs) =
     (case find (\<lambda>w. w \<noteq> [] \<and> prefix w (c # cs)) ws of
        None \<Rightarrow> c # cs
      | Some w \<Rightarrow> strip_leading ws (drop (length w - 1) cs))"

text \<open>
  \<open>s.lstrip()\<close>, \<open>s.rstrip()\<close> and \<open>s.strip()\<close>: whitespace code points are removed from
  the left, from the right (on the reversed bytes, with the encodings reversed), and from
  both ends.
\<close>

definition py_lstrip :: "string \<Rightarrow> string" where
  "py_lstrip s = strip_leading py_whitespace s"

definition py_rstrip :: "string \<Rightarrow> string" where
  "py_rstrip s = rev (strip_leading (map rev py_whitespace) (rev s))"

definition py_strip :: "string \<Rightarrow> string" where
  "py_strip s = py_rstrip (py_lstrip s)"

text \<open>\<open>sub in s\<close>\<close>

fun py_in :: "string \<Rightarrow> string \<Rightarrow> bool" where
  "py_in sub [] = (sub = [])"
| "py_in sub (c # cs) = (prefix sub (c # cs) \<or> py_in sub cs)"

text \<open>
  \<open>s.split(sep)\<close> for a non-empty separator (every call site passes a literal one):
  the pieces between the non-overlapping occurrences of \<open>sep\<close>, found left to right.
\<close>

fun py_split_from :: "string \<Rightarrow> string \<Rightarrow> string \<Rightarrow> string list" where
  "py_split_from sep cur [] = [cur]"
| "py_split_from sep cur (c # cs) =
     (if sep \<noteq> [] \<and> prefix sep (c # cs)
      then cur # py_split_from sep [] (drop (length sep - 1) cs)
      else py_split_from sep (cur @ [c]) cs)"

definition py_split :: "string \<Rightarrow> string \<Rightarrow> string list" where
  "py_split sep s = py_split_from sep [] s"

text \<open>\<open>sep.join(xs)\<close>\<close>

fun py_join :: "string \<Rightarrow> string list \<Rightarrow> string" where
  "py_join sep [] = []"
| "py_join sep [x] = x"
| "py_join sep (x # y # ys) = x @ sep @ py_join sep (y # ys)"

text \<open>\<open>str(n)\<close> for a non-negative integer (a length or a 1-based index).\<close>

fun str_of_nat :: "nat \<Rightarrow> string" where
  "str_of_nat n =
     (if n < 10 then [char_of (48 + n)]
      else str_of_nat (n div 10) @ [char_of (48 + n mod 10)])"

text \<open>A \<open>Dict[str, Any]\<close> whose values are strings, and \<open>d.get(k, default)\<close>.\<close>

type_synonym py_dict = "string \<rightharpoonup> string"

definition dict_get :: "py_dict \<Rightarrow> string \<Rightarrow> string \<Rightarrow> string" where
  "dict_get d k dflt = (case d k of None \<Rightarrow> dflt | Some v \<Rightarrow> v)"

text \<open>Exceptions are values; \<open>exn_str\<close> is \<open>str(e)\<close>.\<close>

datatype exn = Exception string | UnboundLocalError string | StopIteration

fun exn_str :: "exn \<Rightarrow> string" where
  "exn_str (Exception m) = m"
| "exn_str (UnboundLocalError m) = m"
| "exn_str StopIteration = ''''"


section \<open>agents/validator/odrl\_validation\_tool.py\<close>

subsection \<open>ValidationIssue and ValidationReport\<close>

record ValidationIssue =
  issue_type :: string
  focus_node :: string
  property_path :: string
  actual_value :: string
  constraint_violated :: string
  severity :: string

record ValidationReport =
  user_text :: string
  generated_kg :: string
  is_valid :: bool
  issues :: "ValidationIssue list"

text \<open>
  \<open>_group_issues_by_type\<close>: a dictionary keeps its keys in insertion order, so the
  groups are an association list; an issue joins the group of its type or opens a new
  group at the end.
\<close>

fun group_add :: "ValidationIssue \<Rightarrow> (string \<times> ValidationIssue list) list
    \<Rightarrow> (string \<times> ValidationIssue list) list" where
  "group_add issue [] = [(issue_type issue, [issue])]"
| "group_add issue ((t, xs) # groups) =
     (if t = issue_type issue then (t, xs @ [issue]) # groups
      else (t, xs) # group_add issue groups)"

definition group_issues_by_type :: "ValidationReport \<Rightarrow> (string \<times> ValidationIssue list) list" where
  "group_issues_by_type self = foldl (\<lambda>groups issue. group_add issue groups) [] (issues self)"

text \<open>The lines \<open>to_learning_prompt\<close> writes for the \<open>i\<close>-th issue of a group.\<close>

definition issue_lines :: "nat \<Rightarrow> ValidationIssue \<Rightarrow> string list" where
  \<open>issue_lines i issue =
     [str_of_nat i @ ''. **Node**: `'' @ focus_node issue @ ''`'',
      ''   **Property**: `'' @ property_path issue @ ''`'',
      ''   **Current Value**: `'' @ actual_value issue @ ''`'',
      ''   **Constraint Violated**: '' @ constraint_violated issue]
     @ (if severity issue \<noteq> ''Violation''
        then [''   **Severity**: '' @ severity issue] else [])
     @ ['''']\<close>

definition group_lines :: "string \<times> ValidationIssue list \<Rightarrow> string list" where
  "group_lines g =
     (''### '' @ fst g)
     # concat (map (\<lambda>(i, issue). issue_lines i issue) (zip [1 ..< Suc (length (snd g))] (snd g)))"

definition to_learning_prompt :: "ValidationReport \<Rightarrow> string" where
  \<open>to_learning_prompt self =
     py_join ''\<newline>''
      ([''# ODRL Knowledge Graph Validation Report'',
        '''',
        ''## Original User Request'',
        ''"'' @ user_text self @ ''"'',
        '''',
        ''## Generated Knowledge Graph'',
        ''```turtle'',
        py_strip (generated_kg self),
        ''```'',
        '''',
        ''## Validation Results'']
       @ (if is_valid self
          then [''**Status**: VALID '',
                '''',
                ''The generated knowledge graph conforms to all ODRL validation rules.'']
          else [''**Status**: INVALID  - '' @ str_of_nat (length (issues self)) @ '' issue(s) detected'',
                '''']
               @ concat (map group_lines (group_issues_by_type self))
               @ [''## Learning Notes'',
                  ''The above issues indicate where the knowledge graph doesn'' @ [CHR 0x27] @ ''t conform to ODRL standards.'',
                  ''Review the constraint violations to understand what corrections are needed.'']))\<close>

subsection \<open>ODRL vocabulary\<close>

datatype OperatorType =
  EQ | GT | GTEQ | LT | LTEQ | NEQ | IS_A | HAS_PART | IS_PART_OF | IS_ALL_OF | IS_ANY_OF | IS_NONE_OF

text \<open>\<open>op.value\<close>, and the members in declaration order (\<open>for op in OperatorType\<close>).\<close>

fun op_value :: "OperatorType \<Rightarrow> string" where
  "op_value EQ = ''eq''"
| "op_value GT = ''gt''"
| "op_value GTEQ = ''gteq''"
| "op_value LT = ''lt''"
| "op_value LTEQ = ''lteq''"
| "op_value NEQ = ''neq''"
| "op_value IS_A = ''isA''"
| "op_value HAS_PART = ''hasPart''"
| "op_value IS_PART_OF = ''isPartOf''"
| "op_value IS_ALL_OF = ''isAllOf''"
| "op_value IS_ANY_OF = ''isAnyOf''"
| "op_value IS_NONE_OF = ''isNoneOf''"

definition OperatorType_members :: "OperatorType list" where
  "OperatorType_members =
     [EQ, GT, GTEQ, LT, LTEQ, NEQ, IS_A, HAS_PART, IS_PART_OF, IS_ALL_OF, IS_ANY_OF, IS_NONE_OF]"

record LeftOperandInfo =
  uri :: string
  label :: string
  definition_text :: string
  compatible_operators :: "OperatorType set"
  expected_datatype :: "string option"

text \<open>\<open>ODRLLeftOperands.OPERANDS\<close>, in the order the dictionary literal lists its keys.\<close>

definition OPERANDS :: "(string \<times> LeftOperandInfo) list" where
  "OPERANDS =
     [(''dateTime'', \<lparr>uri = ''http://www.w3.org/ns/odrl/2/dateTime'', label = ''Datetime'',
         definition_text = ''The date (and optional time) of exercising the action'',
         compatible_operators = {LT, LTEQ, GT, GTEQ, EQ}, expected_datatype = Some ''xsd:date''\<rparr>),
      (''count'', \<lparr>uri = ''http://www.w3.org/ns/odrl/2/count'', label = ''Count'',
         definition_text = ''Numeric count of executions'',
         compatible_operators = {LT, LTEQ, GT, GTEQ, EQ}, expected_datatype = Some ''xsd:integer''\<rparr>),
      (''elapsedTime'', \<lparr>uri = ''http://www.w3.org/ns/odrl/2/elapsedTime'', label = ''Elapsed Time'',
         definition_text = ''A continuous elapsed time period'',
         compatible_operators = {EQ, LT, LTEQ}, expected_datatype = Some ''xsd:duration''\<rparr>),
      (''payAmount'', \<lparr>uri = ''http://www.w3.org/ns/odrl/2/payAmount'', label = ''Payment Amount'',
         definition_text = ''The amount of a financial payment'',
         compatible_operators = {EQ, LT, LTEQ, GT, GTEQ}, expected_datatype = Some ''xsd:decimal''\<rparr>),
      (''percentage'', \<lparr>uri = ''http://www.w3.org/ns/odrl/2/percentage'', label = ''Asset Percentage'',
         definition_text = ''A percentage amount of the target Asset'',
         compatible_operators = {EQ, LT, LTEQ, GT, GTEQ}, expected_datatype = Some ''xsd:decimal''\<rparr>),
      (''spatial'', \<lparr>uri = ''http://www.w3.org/ns/odrl/2/spatial'', label = ''Geospatial Named Area'',
         definition_text = ''A named geospatial area'',
         compatible_operators = {EQ, IS_A, IS_ANY_OF, IS_NONE_OF}, expected_datatype = None\<rparr>),
      (''purpose'', \<lparr>uri = ''http://www.w3.org/ns/odrl/2/purpose'', label = ''Purpose'',
         definition_text = ''A defined purpose for exercising the action'',
         compatible_operators = {EQ, IS_A, IS_ANY_OF, IS_NONE_OF}, expected_datatype = None\<rparr>),
      (''recipient'', \<lparr>uri = ''http://www.w3.org/ns/odrl/2/recipient'', label = ''Recipient'',
         definition_text = ''The party receiving the result'',
         compatible_operators = {EQ, IS_A, IS_ANY_OF, IS_NONE_OF}, expected_datatype = None\<rparr>)]"

definition get_operand :: "string \<Rightarrow> LeftOperandInfo option" where
  "get_operand name = map_of OPERANDS name"

definition list_operands :: "string list" where
  "list_operands = map fst OPERANDS"

subsection \<open>Validators\<close>

text \<open>
  A \<open>BaseValidator\<close> object is its two methods: the SHACL shape it contributes and the
  conversion of the SHACL results for that shape into issues.
\<close>

record validator =
  get_shape_ttl :: string
  process_violations :: "py_dict list \<Rightarrow> ValidationIssue list"

text \<open>\<open>PolicyStructureValidator\<close>\<close>

definition PolicyStructure_shape_ttl :: string where
  \<open>PolicyStructure_shape_ttl = py_join ''\<newline>''
   ['''',
    ''@prefix sh: <http://www.w3.org/ns/shacl#> .'',
    ''@prefix odrl: <http://www.w3.org/ns/odrl/2/> .'',
    '''',
    ''<PolicyStructureShape> a sh:NodeShape ;'',
    ''    sh:targetClass odrl:Policy ;'',
    ''    sh:property ['',
    ''        sh:path odrl:uid ;'',
    ''        sh:minCount 1 ;'',
    ''        sh:maxCount 1 ;'',
    ''        sh:nodeKind sh:IRI ;'',
    ''        sh:message "Policy must have exactly one uid with IRI value" ;'',
    ''    ] ;'',
    ''    sh:or ('',
    ''        [ sh:property [ sh:path odrl:permission ; sh:minCount 1 ] ]'',
    ''        [ sh:property [ sh:path odrl:prohibition ; sh:minCount 1 ] ]'',
    ''        [ sh:property [ sh:path odrl:obligation ; sh:minCount 1 ] ]'',
    ''    ) ;'',
    ''    sh:message "Policy must have at least one rule" .'',
    '''']\<close>

definition PolicyStructure_issue :: "py_dict \<Rightarrow> ValidationIssue" where
  "PolicyStructure_issue violation =
     (let constraint_type = dict_get violation ''source_constraint_component'' '''';
          (issue_type, constraint_violated) =
            (if py_in ''uid'' (dict_get violation ''result_path'' '''')
             then (''Missing Policy UID'',
                   ''ODRL Policy must have exactly one odrl:uid property with an IRI value'')
             else if py_in ''OrConstraintComponent'' constraint_type
             then (''Missing Policy Rules'',
                   ''ODRL Policy must contain at least one Rule (permission/prohibition/obligation)'')
             else (''Policy Structure Error'',
                   dict_get violation ''message'' ''Unknown policy structure violation''))
      in \<lparr>issue_type = issue_type,
          focus_node = dict_get violation ''focus_node'' '''',
          property_path = dict_get violation ''result_path'' '''',
          actual_value = dict_get violation ''value'' ''not specified'',
          constraint_violated = constraint_violated,
          severity = ''Violation''\<rparr>)"

definition PolicyStructureValidator :: validator where
  "PolicyStructureValidator =
     \<lparr>get_shape_ttl = PolicyStructure_shape_ttl,
      process_violations = map PolicyStructure_issue\<rparr>"

text \<open>\<open>ConstraintStructureValidator\<close>\<close>

definition ConstraintStructure_shape_ttl :: string where
  \<open>ConstraintStructure_shape_ttl =
   (let left_operands = py_join '' '' (map (\<lambda>op. ''odrl:'' @ op) list_operands);
        operators = py_join '' '' (map (\<lambda>op. ''odrl:'' @ op_value op) OperatorType_members)
    in py_join ''\<newline>''
   ['''',
    ''@prefix sh: <http://www.w3.org/ns/shacl#> .'',
    ''@prefix odrl: <http://www.w3.org/ns/odrl/2/> .'',
    '''',
    ''<ConstraintStructureShape> a sh:NodeShape ;'',
    ''    sh:targetClass odrl:Constraint ;'',
    ''    '',
    ''    sh:property ['',
    ''        sh:path odrl:leftOperand ;'',
    ''        sh:minCount 1 ;'',
    ''        sh:maxCount 1 ;'',
    ''        sh:in ( '' @ left_operands @ '' ) ;'',
    ''        sh:message "Invalid or missing left operand" ;'',
    ''    ] ;'',
    ''    '',
    ''    sh:property ['',
    ''        sh:path odrl:operator ;'',
    ''        sh:minCount 1 ;'',
    ''        sh:maxCount 1 ;'',
    ''        sh:in ( '' @ operators @ '' ) ;'',
    ''        sh:message "Invalid or missing operator" ;'',
    ''    ] ;'',
    ''    '',
    ''    sh:xone ('',
    ''        [ sh:property [ sh:path odrl:rightOperand ; sh:minCount 1 ] ]'',
    ''        [ sh:property [ sh:path odrl:rightOperandReference ; sh:minCount 1 ] ]'',
    ''    ) ;'',
    ''    sh:message "Missing right operand or reference" .'',
    ''''])\<close>

definition ConstraintStructure_extract_from_uri :: "string \<Rightarrow> string" where
  "ConstraintStructure_extract_from_uri uri_value =
     (if py_in ''odrl/2/'' uri_value then last (py_split ''odrl/2/'' uri_value)
      else if py_in '':'' uri_value then last (py_split '':'' uri_value)
      else uri_value)"

definition ConstraintStructure_issue :: "py_dict \<Rightarrow> ValidationIssue" where
  "ConstraintStructure_issue violation =
     (let constraint_type = dict_get violation ''source_constraint_component'' '''';
          (issue_type, constraint_violated) =
            (if py_in ''leftOperand'' (dict_get violation ''result_path'' '''')
             then (let actual_operand = ConstraintStructure_extract_from_uri (dict_get violation ''value'' '''')
                   in (''Invalid Left Operand'',
                       ''Left operand '' @ [CHR 0x27] @ actual_operand @ [CHR 0x27]
                       @ '' is not in ODRL Core. Valid: '' @ py_join '', '' list_operands))
             else if py_in ''operator'' (dict_get violation ''result_path'' '''')
             then (let actual_op = ConstraintStructure_extract_from_uri (dict_get violation ''value'' '''');
                       valid_ops = py_join '', '' (map op_value OperatorType_members)
                   in (''Invalid Operator'',
                       ''Operator '' @ [CHR 0x27] @ actual_op @ [CHR 0x27]
                       @ '' is not in ODRL Core. Valid: '' @ valid_ops))
             else if py_in ''XoneConstraintComponent'' constraint_type
             then (''Missing Right Operand'',
                   ''Must have either rightOperand or rightOperandReference'')
             else (''Constraint Structure Error'',
                   dict_get violation ''message'' ''Unknown constraint violation''))
      in \<lparr>issue_type = issue_type,
          focus_node = dict_get violation ''focus_node'' '''',
          property_path = dict_get violation ''result_path'' '''',
          actual_value = dict_get violation ''value'' ''not specified'',
          constraint_violated = constraint_violated,
          severity = ''Violation''\<rparr>)"

definition ConstraintStructureValidator :: validator where
  "ConstraintStructureValidator =
     \<lparr>get_shape_ttl = ConstraintStructure_shape_ttl,
      process_violations = map ConstraintStructure_issue\<rparr>"

text \<open>
  \<open>ConstraintCompatibilityValidator\<close>. It iterates \<open>compatible_operators\<close>, a Python
  set, whose iteration order the language leaves to the hash table: the order is the
  parameter \<open>set_iter\<close>.
\<close>

definition Compatibility_rule :: "(OperatorType set \<Rightarrow> OperatorType list) \<Rightarrow> string \<times> LeftOperandInfo \<Rightarrow> string" where
  \<open>Compatibility_rule set_iter item =
   (let operand_name = fst item; operand_info = snd item;
        compatible_ops = py_join '' '' (map (\<lambda>op. ''odrl:'' @ op_value op)
                                        (set_iter (compatible_operators operand_info)))
    in py_join ''\<newline>''
   ['''',
    ''<CompatibilityRule_'' @ operand_name @ ''> a sh:NodeShape ;'',
    ''    sh:targetClass odrl:Constraint ;'',
    ''    sh:sparql ['',
    ''        sh:select '' @ [CHR 0x27, CHR 0x27, CHR 0x27],
    ''            PREFIX odrl: <http://www.w3.org/ns/odrl/2/>'',
    ''            SELECT $this ?operator'',
    ''            WHERE {'',
    ''                $this odrl:leftOperand odrl:'' @ operand_name @ '' .'',
    ''                $this odrl:operator ?operator .'',
    ''                FILTER (?operator NOT IN ('' @ compatible_ops @ ''))'',
    ''            }'',
    ''        '' @ [CHR 0x27, CHR 0x27, CHR 0x27] @ '' ;'',
    ''        sh:message "Incompatible operator for '' @ operand_name @ ''" ;'',
    ''        sh:severity sh:Warning ;'',
    ''    ] .'',
    ''''])\<close>

definition Compatibility_shape_ttl :: "(OperatorType set \<Rightarrow> OperatorType list) \<Rightarrow> string" where
  \<open>Compatibility_shape_ttl set_iter =
   (let rules = map (Compatibility_rule set_iter) OPERANDS
    in py_join ''\<newline>''
   ['''',
    ''@prefix sh: <http://www.w3.org/ns/shacl#> .'',
    ''@prefix odrl: <http://www.w3.org/ns/odrl/2/> .'',
    '''',
    py_join ''\<newline>'' rules,
    ''''])\<close>

definition Compatibility_extract_from_uri :: "string \<Rightarrow> string" where
  "Compatibility_extract_from_uri uri_value =
     (if py_in ''odrl/2/'' uri_value then last (py_split ''odrl/2/'' uri_value)
      else if py_in ''#'' uri_value then last (py_split ''#'' uri_value)
      else if py_in ''/'' uri_value then last (py_split ''/'' uri_value)
      else uri_value)"

definition Compatibility_issue :: "(OperatorType set \<Rightarrow> OperatorType list) \<Rightarrow> py_dict \<Rightarrow> ValidationIssue" where
  "Compatibility_issue set_iter violation =
     (let focus_node = dict_get violation ''focus_node'' '''';
          operator_value = dict_get violation ''value'' '''';
          message = dict_get violation ''message'' '''';
          operand_name = (if py_in ''for '' message
                          then Some (py_strip (last (py_split ''for '' message))) else None);
          constraint_violated =
            (case operand_name of
               None \<Rightarrow> ''Operator-operand compatibility issue''
             | Some name \<Rightarrow>
                 if name = [] then ''Operator-operand compatibility issue''
                 else (case get_operand name of
                         Some operand_info \<Rightarrow>
                           (let valid_ops = py_join '', '' (map op_value (set_iter (compatible_operators operand_info)));
                                operator_short = Compatibility_extract_from_uri operator_value
                            in ''Operator '' @ [CHR 0x27] @ operator_short @ [CHR 0x27]
                               @ '' not compatible with leftOperand '' @ [CHR 0x27] @ name @ [CHR 0x27]
                               @ ''. Valid: '' @ valid_ops)
                       | None \<Rightarrow> ''Unknown operand '' @ [CHR 0x27] @ name @ [CHR 0x27]))
      in \<lparr>issue_type = ''Operator Compatibility'',
          focus_node = focus_node,
          property_path = ''odrl:operator'',
          actual_value = operator_value,
          constraint_violated = constraint_violated,
          severity = ''Warning''\<rparr>)"

definition ConstraintCompatibilityValidator :: "(OperatorType set \<Rightarrow> OperatorType list) \<Rightarrow> validator" where
  "ConstraintCompatibilityValidator set_iter =
     \<lparr>get_shape_ttl = Compatibility_shape_ttl set_iter,
      process_violations = map (Compatibility_issue set_iter)\<rparr>"

subsection \<open>ODRLValidationTool\<close>

text \<open>
  \<open>__init__\<close> registers two validators; the line that would register
  \<open>ConstraintCompatibilityValidator()\<close> is commented out in the source.
\<close>

record ODRLValidationTool =
  validators :: "validator list"

definition ODRLValidationTool_init :: ODRLValidationTool where
  "ODRLValidationTool_init =
     \<lparr>validators = [PolicyStructureValidator, ConstraintStructureValidator]\<rparr>"

text \<open>
  The SHACL engine (rdflib parsing, pyshacl validation and the iteration over the report
  graph) is outside the repository. It is a parameter: given the data and the shape text
  it either raises or yields, for every \<open>sh:ValidationResult\<close> subject in iteration
  order, that subject's (predicate, object) pairs with the object already converted by
  \<open>str\<close>.
\<close>

datatype sh_pred =
  SH_focusNode | SH_value | SH_sourceConstraintComponent | SH_resultPath | SH_resultMessage
  | SH_other string

type_synonym shacl_engine = "string \<Rightarrow> string \<Rightarrow> exn + (sh_pred \<times> string) list list"

fun violation_set :: "py_dict \<Rightarrow> sh_pred \<times> string \<Rightarrow> py_dict" where
  "violation_set violation (SH_focusNode, obj) = violation(''focus_node'' \<mapsto> obj)"
| "violation_set violation (SH_value, obj) = violation(''value'' \<mapsto> obj)"
| "violation_set violation (SH_sourceConstraintComponent, obj) = violation(''source_constraint_component'' \<mapsto> obj)"
| "violation_set violation (SH_resultPath, obj) = violation(''result_path'' \<mapsto> obj)"
| "violation_set violation (SH_resultMessage, obj) = violation(''message'' \<mapsto> obj)"
| "violation_set violation (SH_other p, obj) = violation"

definition run_shacl_validation :: "shacl_engine \<Rightarrow> string \<Rightarrow> string \<Rightarrow> py_dict list" where
  "run_shacl_validation shacl data_ttl shape_ttl =
     (case shacl data_ttl shape_ttl of
        Inr results \<Rightarrow> map (foldl violation_set Map.empty) results
      | Inl e \<Rightarrow>
          [[''message'' \<mapsto> ''Validation error: '' @ exn_str e,
            ''focus_node'' \<mapsto> '''',
            ''value'' \<mapsto> '''',
            ''source_constraint_component'' \<mapsto> '''',
            ''result_path'' \<mapsto> '''']])"

definition validate_kg :: "shacl_engine \<Rightarrow> ODRLValidationTool \<Rightarrow> string \<Rightarrow> string \<Rightarrow> ValidationReport" where
  "validate_kg shacl self user_text' kg_turtle =
     (let all_issues =
            foldl (\<lambda>all_issues validator.
                     let violations = run_shacl_validation shacl kg_turtle (get_shape_ttl validator);
                         issues = process_violations validator violations
                     in all_issues @ issues)
                  [] (validators self);
          is_valid = (length all_issues = 0)
      in \<lparr>user_text = user_text',
          generated_kg = kg_turtle,
          is_valid = is_valid,
          issues = all_issues\<rparr>)"


section \<open>agents/validator/validator\_agent.py\<close>

text \<open>
  \<open>ODRL_REGENERATION_PROMPT.format(current_date=..., validation_learning_prompt=...)\<close>:
  the template has these two placeholders and no other brace.
\<close>

definition ODRL_REGENERATION_PROMPT_format :: "string \<Rightarrow> string \<Rightarrow> string" where
  \<open>ODRL_REGENERATION_PROMPT_format current_date validation_learning_prompt = py_join ''\<newline>''
   ['''',
    ''# ODRL SHACL VIOLATION FIXER'',
    '''',
    ''You are an expert at fixing W3C ODRL 2.2 compliance issues in Turtle format.'',
    '''',
    ''**Current Date:** '' @ current_date,
    '''',
    ''---'',
    '''',
    validation_learning_prompt,
    '''',
    ''---'',
    '''',
    ''## FIXING GUIDELINES'',
    '''',
    ''### 1. PRESERVE POLICY MEANING'',
    ''- Do NOT change who can do what'',
    ''- Do NOT change which resources'',
    ''- Do NOT change time periods, counts, or purposes'',
    ''- Do NOT remove constraints'',
    ''- ONLY fix technical SHACL compliance issues'',
    '''',
    ''### 2. COMMON FIXES'',
    '''',
    ''**Missing odrl:uid:**'',
    ''```turtle'',
    ''# WRONG'',
    ''ex:policy_123 a odrl:Policy ;'',
    ''    odrl:permission [ ... ] .'',
    '''',
    ''# CORRECT'',
    ''ex:policy_123 a odrl:Policy ;'',
    ''    odrl:uid ex:policy_123 ;  # '' @ [CHR 0xE2, CHR 0x86, CHR 0x90] @ '' ADD THIS (must match policy URI)'',
    ''    odrl:permission [ ... ] .'',
    ''```'',
    '''',
    ''**Invalid Operator:**'',
    ''```turtle'',
    ''# WRONG'',
    ''odrl:operator "lte" .          # Missing odrl: prefix'',
    ''odrl:operator invalidOp .      # Not in ODRL vocabulary'',
    '''',
    ''# CORRECT'',
    ''odrl:operator odrl:lteq .      # Use odrl: prefix and valid operator'',
    ''```'',
    '''',
    ''**Valid ODRL Operators:**'',
    ''- `odrl:eq` (equals)'',
    ''- `odrl:neq` (not equals)'',
    ''- `odrl:lt` (less than)'',
    ''- `odrl:lteq` (less than or equal)'',
    ''- `odrl:gt` (greater than)'',
    ''- `odrl:gteq` (greater than or equal)'',
    ''- `odrl:isA` (instance of)'',
    ''- `odrl:isAnyOf` (any of set)'',
    ''- `odrl:isNoneOf` (none of set)'',
    '''',
    ''**Invalid leftOperand:**'',
    ''```turtle'',
    ''# WRONG'',
    ''odrl:leftOperand "dateTime" .  # Missing odrl: prefix'',
    ''odrl:leftOperand count .       # Missing odrl: prefix'',
    '''',
    ''# CORRECT'',
    ''odrl:leftOperand odrl:dateTime .'',
    ''odrl:leftOperand odrl:count .'',
    ''```'',
    '''',
    ''**Valid ODRL leftOperands:**'',
    ''- `odrl:dateTime` (temporal constraints)'',
    ''- `odrl:count` (usage count)'',
    ''- `odrl:purpose` (purpose restrictions)'',
    ''- `odrl:spatial` (geographic restrictions)'',
    ''- `odrl:recipient` (recipient restrictions)'',
    ''- `odrl:elapsedTime` (duration constraints)'',
    ''- `odrl:payAmount` (payment amounts)'',
    ''- `odrl:percentage` (percentage amounts)'',
    '''',
    ''**Missing Constraint Type:**'',
    ''```turtle'',
    ''# WRONG'',
    ''odrl:constraint ['',
    ''    odrl:leftOperand odrl:dateTime ;  # Missing type declaration'',
    ''    odrl:operator odrl:lteq ;'',
    ''    odrl:rightOperand "2025-12-31"^^xsd:date ;'',
    ''] .'',
    '''',
    ''# CORRECT'',
    ''odrl:constraint ['',
    ''    a odrl:Constraint ;  # '' @ [CHR 0xE2, CHR 0x86, CHR 0x90] @ '' ADD THIS'',
    ''    odrl:leftOperand odrl:dateTime ;'',
    ''    odrl:operator odrl:lteq ;'',
    ''    odrl:rightOperand "2025-12-31"^^xsd:date ;'',
    ''] .'',
    ''```'',
    '''',
    ''**Missing Permission/Prohibition Type:**'',
    ''```turtle'',
    ''# WRONG'',
    ''odrl:permission ['',
    ''    odrl:action odrl:read ;  # Missing type declaration'',
    ''    odrl:target ex:dataset ;'',
    ''] .'',
    '''',
    ''# CORRECT'',
    ''odrl:permission ['',
    ''    a odrl:Permission ;  # '' @ [CHR 0xE2, CHR 0x86, CHR 0x90] @ '' ADD THIS'',
    ''    odrl:action odrl:read ;'',
    ''    odrl:target ex:dataset ;'',
    ''] .'',
    ''```'',
    '''',
    ''**Wrong Datatype:**'',
    ''```turtle'',
    ''# WRONG'',
    ''odrl:rightOperand "2025-12-31" .      # Missing ^^xsd:date'',
    ''odrl:rightOperand "30" .              # Missing ^^xsd:integer'',
    '''',
    ''# CORRECT'',
    ''odrl:rightOperand "2025-12-31"^^xsd:date .'',
    ''odrl:rightOperand "30"^^xsd:integer .'',
    ''```'',
    '''',
    ''---'',
    '''',
    ''## OUTPUT REQUIREMENTS'',
    '''',
    ''1. **Return ONLY the corrected Turtle**'',
    ''2. **NO markdown code blocks** (no ```)'',
    ''3. **NO explanatory text**'',
    ''4. **Start with @prefix declarations**'',
    ''5. **Preserve all metadata** (dct:title, dct:description, rdfs:comment)'',
    ''6. **Fix ONLY the specific SHACL violations listed above**'',
    ''7. **Do NOT change the policy meaning**'',
    '''',
    ''---'',
    '''',
    ''Return the corrected ODRL Turtle now:'',
    '''']\<close>

text \<open>
  The collaborators outside the repository: the SHACL engine, the language model behind
  \<open>self.llm.invoke\<close>, which answers a prompt with text or raises and may answer the same
  prompt differently from one call to the next (its first argument counts the calls made
  before), and the clock read by \<open>datetime.now\<close>, already formatted as a date.
\<close>

record externals =
  shacl :: shacl_engine
  llm_invoke :: "nat \<Rightarrow> string \<Rightarrow> exn + string"
  utcnow_date :: "nat \<Rightarrow> string"

text \<open>
  The calls a session makes, in order: a validation pass with the document it checked,
  or an invocation of the language model with its prompt. The trace is not program
  state; it is what the claims about the number and order of calls speak of.
\<close>

datatype event = Validate string | Invoke string

fun is_Validate :: "event \<Rightarrow> bool" where
  "is_Validate (Validate d) = True"
| "is_Validate (Invoke p) = False"

fun is_Invoke :: "event \<Rightarrow> bool" where
  "is_Invoke (Invoke p) = True"
| "is_Invoke (Validate d) = False"

record ValidatorAgent =
  validator_tool :: ODRLValidationTool

record validation_result =
  vr_is_valid :: bool
  validation_report :: ValidationReport

definition validate :: "externals \<Rightarrow> ValidatorAgent \<Rightarrow> string \<Rightarrow> string \<Rightarrow> event list
    \<Rightarrow> validation_result \<times> event list" where
  "validate ext self policy_text odrl_turtle tr =
     (let validation_report = validate_kg (shacl ext) (validator_tool self) policy_text odrl_turtle
      in (\<lparr>vr_is_valid = is_valid validation_report, validation_report = validation_report\<rparr>,
          tr @ [Validate odrl_turtle]))"

text \<open>
  \<open>re.sub(lit + r'\s*', '', content)\<close> for a non-empty literal \<open>lit\<close>: every occurrence of
  the literal goes, together with all the whitespace that follows it.
\<close>

function re_sub_lit_spaces :: "string \<Rightarrow> string \<Rightarrow> string" where
  "re_sub_lit_spaces lit [] = []"
| "re_sub_lit_spaces lit (c # cs) =
     (if lit \<noteq> [] \<and> prefix lit (c # cs)
      then re_sub_lit_spaces lit (py_lstrip (drop (length lit - 1) cs))
      else c # re_sub_lit_spaces lit cs)"
  by pat_completeness auto
termination
proof (relation "measure (\<lambda>(lit, s). length s)")
  fix lit :: string and c :: char and cs :: string
  have le: "length (strip_leading ws s) \<le> length s" for ws s
  proof (induction ws s rule: strip_leading.induct)
    case (1 ws)
    show ?case by simp
  next
    case (2 ws c cs)
    show ?case
    proof (cases "find (\<lambda>w. w \<noteq> [] \<and> prefix w (c # cs)) ws")
      case None
      then show ?thesis by simp
    next
      case (Some w)
      from "2.IH" [OF Some] Some show ?thesis by simp
    qed
  qed
  have "length (py_lstrip (drop (length lit - 1) cs)) \<le> length (drop (length lit - 1) cs)"
    unfolding py_lstrip_def by (rule le)
  then show "((lit, py_lstrip (drop (length lit - 1) cs)), (lit, c # cs))
      \<in> measure (\<lambda>(lit, s). length s)"
    by simp
qed auto

definition clean_turtle :: "string \<Rightarrow> string" where
  "clean_turtle content0 =
     (let content1 = re_sub_lit_spaces ''```turtle'' content0;
          content2 = re_sub_lit_spaces ''```'' content1;
          lines = py_split ''\<newline>'' content2;
          start_idx = (case find (\<lambda>i. prefix ''@prefix'' (py_strip (lines ! i))) [0 ..< length lines] of
                         Some i \<Rightarrow> i | None \<Rightarrow> 0);
          content3 = py_join ''\<newline>'' (drop start_idx lines)
      in py_strip content3)"

text \<open>
  The result dictionary of \<open>regenerate\<close>; the key \<open>original_issues\<close> is present only after
  a regeneration. An issue dictionary has the six fields of a \<open>ValidationIssue\<close>.
\<close>

record regen_result =
  odrl_turtle :: string
  regenerated :: bool
  original_issues :: "ValidationIssue list option"

definition regenerate :: "externals \<Rightarrow> ValidatorAgent \<Rightarrow> validation_result \<Rightarrow> event list
    \<Rightarrow> (exn + regen_result) \<times> event list" where
  "regenerate ext self validation_result tr =
     (let validation_report = validation_report validation_result
      in if is_valid validation_report
         then (Inr \<lparr>odrl_turtle = generated_kg validation_report,
                    regenerated = False,
                    original_issues = None\<rparr>, tr)
         else
           (let n = length (filter is_Invoke tr);
                current_date = utcnow_date ext n;
                learning_prompt = to_learning_prompt validation_report;
                prompt = ODRL_REGENERATION_PROMPT_format current_date learning_prompt;
                tr' = tr @ [Invoke prompt]
            in case llm_invoke ext n prompt of
                 Inl e \<Rightarrow> (Inl e, tr')
               | Inr content \<Rightarrow>
                   (Inr \<lparr>odrl_turtle = clean_turtle content,
                          regenerated = True,
                          original_issues = Some (issues validation_report)\<rparr>, tr')))"

text \<open>
  \<open>validate_and_regenerate\<close>. The \<open>while\<close> loop is the recursive function
  \<open>attempt_loop\<close> over the loop's variables: \<open>attempt\<close>, \<open>odrl_turtle\<close>, \<open>all_attempts\<close> and
  \<open>attempt_info\<close>, which is unbound (\<open>None\<close>) until the first pass assigns it.
\<close>

record attempt_info =
  info_attempt :: int
  info_is_valid :: bool
  info_issues :: "ValidationIssue list"
  info_odrl_turtle :: string

record loop_result =
  success :: bool
  final_odrl :: string
  attempts :: int
  all_attempts :: "attempt_info list"
  final_issues :: "ValidationIssue list option"

definition failed_after_max :: "int \<Rightarrow> string \<Rightarrow> attempt_info list \<Rightarrow> attempt_info option
    \<Rightarrow> exn + loop_result" where
  "failed_after_max max_attempts odrl_turtle' all_attempts' attempt_info =
     (case attempt_info of
        None \<Rightarrow> Inl (UnboundLocalError ''attempt_info'')
      | Some info \<Rightarrow>
          Inr \<lparr>success = False,
               final_odrl = odrl_turtle',
               attempts = max_attempts,
               all_attempts = all_attempts',
               final_issues = Some (info_issues info)\<rparr>)"

function attempt_loop :: "externals \<Rightarrow> ValidatorAgent \<Rightarrow> string \<Rightarrow> int
    \<Rightarrow> int \<Rightarrow> string \<Rightarrow> attempt_info list \<Rightarrow> attempt_info option \<Rightarrow> event list
    \<Rightarrow> (exn + loop_result) \<times> event list" where
  "attempt_loop ext self policy_text max_attempts attempt odrl_turtle' all_attempts' attempt_info tr =
     (if attempt \<le> max_attempts then
        (case validate ext self policy_text odrl_turtle' tr of
           (validation_result, tr1) \<Rightarrow>
             (let validation_report = validation_report validation_result;
                  info = \<lparr>info_attempt = attempt,
                          info_is_valid = is_valid validation_report,
                          info_issues = issues validation_report,
                          info_odrl_turtle = odrl_turtle'\<rparr>
              in if is_valid validation_report
                 then (Inr \<lparr>success = True,
                            final_odrl = odrl_turtle',
                            attempts = attempt,
                            all_attempts = all_attempts' @ [info],
                            final_issues = None\<rparr>, tr1)
                 else if attempt = max_attempts
                 then (failed_after_max max_attempts odrl_turtle' (all_attempts' @ [info]) (Some info), tr1)
                 else (case regenerate ext self validation_result tr1 of
                         (Inl e, tr2) \<Rightarrow> (Inl e, tr2)
                       | (Inr regen_result, tr2) \<Rightarrow>
                           attempt_loop ext self policy_text max_attempts (attempt + 1)
                             (odrl_turtle regen_result) (all_attempts' @ [info]) (Some info) tr2)))
      else (failed_after_max max_attempts odrl_turtle' all_attempts' attempt_info, tr))"
  by pat_completeness auto
termination
  by (relation "measure (\<lambda>(ext, self, policy_text, max_attempts, attempt, rest).
                           nat (max_attempts + 1 - attempt))") auto

definition validate_and_regenerate :: "externals \<Rightarrow> ValidatorAgent \<Rightarrow> string \<Rightarrow> string \<Rightarrow> int
    \<Rightarrow> (exn + loop_result) \<times> event list" where
  "validate_and_regenerate ext self policy_text odrl_turtle' max_attempts =
     attempt_loop ext self policy_text max_attempts 1 odrl_turtle' [] None []"


section \<open>agents/reasoner/conflict\_types.py\<close>

datatype ConflictType =
  VAGUE_BROAD | UNMEASURABLE
  | SPATIAL_HIERARCHY | SPATIAL_OVERLAP
  | TEMPORAL_EXPIRED | TEMPORAL_OVERLAP | TEMPORAL_IMPOSSIBLE
  | ACTION_HIERARCHY | ACTION_SUBSUMPTION | ACTION_CONFLICT
  | CIRCULAR_DEPENDENCY | WORKFLOW_CYCLE
  | ROLE_HIERARCHY | PARTY_INCONSISTENCY

text \<open>The members of the enumeration, in declaration order.\<close>

definition ConflictType_members :: "ConflictType list" where
  "ConflictType_members =
     [VAGUE_BROAD, UNMEASURABLE,
      SPATIAL_HIERARCHY, SPATIAL_OVERLAP,
      TEMPORAL_EXPIRED, TEMPORAL_OVERLAP, TEMPORAL_IMPOSSIBLE,
      ACTION_HIERARCHY, ACTION_SUBSUMPTION, ACTION_CONFLICT,
      CIRCULAR_DEPENDENCY, WORKFLOW_CYCLE,
      ROLE_HIERARCHY, PARTY_INCONSISTENCY]"

text \<open>
  A structural pattern is a \<open>Dict[str, Any]\<close> whose values are strings or \<open>True\<close>: an
  association list in the order the literal is written.
\<close>

datatype py_value = PyStr string | PyBool bool

record ConflictDetectionStrategy =
  conflict_type :: ConflictType
  detection_order :: int
  requires_ontology :: bool
  requires_graph_analysis :: bool
  keyword_patterns :: "string list"
  structural_patterns :: "(string \<times> py_value) list list"
  resolution_principle :: string
  default_action :: string

definition CONFLICT_STRATEGIES :: "ConflictDetectionStrategy list" where
  "CONFLICT_STRATEGIES =
     [\<lparr>conflict_type = UNMEASURABLE, detection_order = 1,
       requires_ontology = False, requires_graph_analysis = False,
       keyword_patterns =
         [''urgent'', ''soon'', ''later'', ''promptly'', ''quickly'',
          ''responsibly'', ''appropriately'', ''properly'',
          ''when necessary'', ''if important'', ''as needed'',
          ''everyone'', ''anyone'', ''nobody''],
       structural_patterns = [],
       resolution_principle = ''reject_with_measurable_alternative'',
       default_action = ''reject''\<rparr>,
      \<lparr>conflict_type = VAGUE_BROAD, detection_order = 2,
       requires_ontology = False, requires_graph_analysis = False,
       keyword_patterns =
         [''everything'', ''anything'', ''all data'', ''any purpose'',
          ''everyone can access everything'',
          ''nobody can do anything''],
       structural_patterns =
         [[(''actors'', PyStr ''universal_quantifier''), (''assets'', PyStr ''universal_quantifier'')],
          [(''actors'', PyStr ''unspecified''), (''actions'', PyStr ''unspecified'')]],
       resolution_principle = ''require_specification'',
       default_action = ''reject''\<rparr>,
      \<lparr>conflict_type = TEMPORAL_EXPIRED, detection_order = 3,
       requires_ontology = False, requires_graph_analysis = False,
       keyword_patterns = [],
       structural_patterns =
         [[(''constraint_type'', PyStr ''temporal''), (''end_date'', PyStr ''before_current_date'')]],
       resolution_principle = ''flag_as_inactive'',
       default_action = ''reject''\<rparr>,
      \<lparr>conflict_type = TEMPORAL_OVERLAP, detection_order = 4,
       requires_ontology = False, requires_graph_analysis = False,
       keyword_patterns = [],
       structural_patterns =
         [[(''overlapping_intervals'', PyBool True), (''contradictory_actions'', PyBool True)]],
       resolution_principle = ''specific_over_general'',
       default_action = ''reject''\<rparr>,
      \<lparr>conflict_type = SPATIAL_HIERARCHY, detection_order = 5,
       requires_ontology = True, requires_graph_analysis = False,
       keyword_patterns = [],
       structural_patterns =
         [[(''narrow_scope'', PyStr ''permitted''), (''broad_scope'', PyStr ''prohibited''),
           (''containment'', PyBool True)]],
       resolution_principle = ''specific_over_general'',
       default_action = ''reject''\<rparr>,
      \<lparr>conflict_type = ACTION_HIERARCHY, detection_order = 6,
       requires_ontology = True, requires_graph_analysis = False,
       keyword_patterns = [],
       structural_patterns =
         [[(''parent_action'', PyStr ''permitted''), (''child_action'', PyStr ''prohibited'')],
          [(''action_subsumption'', PyBool True)]],
       resolution_principle = ''prohibit_on_conflict'',
       default_action = ''reject''\<rparr>,
      \<lparr>conflict_type = ROLE_HIERARCHY, detection_order = 7,
       requires_ontology = True, requires_graph_analysis = False,
       keyword_patterns = [],
       structural_patterns =
         [[(''broader_role'', PyStr ''required''), (''narrower_role'', PyStr ''prohibited''),
           (''role_containment'', PyBool True)]],
       resolution_principle = ''apply_role_hierarchy'',
       default_action = ''reject''\<rparr>,
      \<lparr>conflict_type = CIRCULAR_DEPENDENCY, detection_order = 8,
       requires_ontology = False, requires_graph_analysis = True,
       keyword_patterns = [],
       structural_patterns =
         [[(''dependency_chain'', PyStr ''contains_cycle'')]],
       resolution_principle = ''break_cycle_at_weakest_link'',
       default_action = ''reject''\<rparr>]"

text \<open>
  The first statement of \<open>get_detection_prompt_for_conflict_type\<close>,
  \<open>next(s for s in CONFLICT_STRATEGIES if s.conflict_type == conflict_type)\<close>: the first
  entry for the type, or \<open>StopIteration\<close> when the generator is exhausted. The rest of the
  function formats text from the entry found.
\<close>

definition get_detection_prompt_strategy :: "ConflictType \<Rightarrow> exn + ConflictDetectionStrategy" where
  "get_detection_prompt_strategy ct =
     (case find (\<lambda>s. conflict_type s = ct) CONFLICT_STRATEGIES of
        None \<Rightarrow> Inl StopIteration
      | Some strategy \<Rightarrow> Inr strategy)"

subsection \<open>Classification\<close>

text \<open>
  Modelled from the spec: the repository has no \<open>classify\<close> function; only the strategy
  table above is in the source. The spec (4.3) gives the contract: the conflict signal is
  a structured description of keyword hits and structural predicate matches; \<open>classify\<close>
  scans the strategy entries in ascending priority order and returns the type of the
  first entry whose trigger signals the input satisfies, and fails with
  \<open>NoMatchingStrategy\<close> when no entry matches.
\<close>

record conflict_signal =
  keyword_hits :: "string list"
  structural_matches :: "(string \<times> py_value) list list"

text \<open>
  Modelled from the spec: an entry's trigger is satisfied when one of the signal's
  keywords is among the entry's keyword patterns or one of its structural matches is one
  of the entry's structural patterns (as dictionaries: the same items in any order).
\<close>

definition trigger_satisfied :: "conflict_signal \<Rightarrow> ConflictDetectionStrategy \<Rightarrow> bool" where
  "trigger_satisfied signal s =
     (list_ex (\<lambda>k. k \<in> set (keyword_patterns s)) (keyword_hits signal)
      \<or> list_ex (\<lambda>m. list_ex (\<lambda>p. set m = set p) (structural_patterns s))
                 (structural_matches signal))"

text \<open>Modelled from the spec: the condition with which classification fails.\<close>

datatype classify_error = NoMatchingStrategy

text \<open>Modelled from the spec: first match in ascending order of \<open>detection_order\<close>.\<close>

definition classify :: "conflict_signal \<Rightarrow> classify_error + ConflictType" where
  "classify signal =
     (case find (trigger_satisfied signal) (sort_key detection_order CONFLICT_STRATEGIES) of
        None \<Rightarrow> Inl NoMatchingStrategy
      | Some s \<Rightarrow> Inr (conflict_type s))"


section \<open>Concrete sessions\<close>

text \<open>
  Inputs on which the statements below are evaluated. The agent is the one \<open>__init__\<close>
  builds. The engine \<open>ex_shacl\<close> answers as a SHACL engine does on the two example
  documents: the policy shape reports a missing \<open>odrl:uid\<close> for a document that has none,
  and nothing else is reported.
\<close>

definition ex_agent :: ValidatorAgent where
  "ex_agent = \<lparr>validator_tool = ODRLValidationTool_init\<rparr>"

definition ex_doc_no_uid :: string where
  \<open>ex_doc_no_uid = py_join ''\<newline>''
   [''@prefix odrl: <http://www.w3.org/ns/odrl/2/> .'',
    ''<http://example.com/p> a odrl:Policy ;'',
    ''    odrl:permission [ odrl:target <http://example.com/d> ; odrl:action odrl:read ] .'']\<close>

definition ex_doc_uid :: string where
  \<open>ex_doc_uid = py_join ''\<newline>''
   [''@prefix odrl: <http://www.w3.org/ns/odrl/2/> .'',
    ''<http://example.com/p> a odrl:Policy ;'',
    ''    odrl:uid <http://example.com/p> ;'',
    ''    odrl:permission [ odrl:target <http://example.com/d> ; odrl:action odrl:read ] .'']\<close>

definition ex_uid_result :: "(sh_pred \<times> string) list" where
  "ex_uid_result =
     [(SH_focusNode, ''http://example.com/p''),
      (SH_resultPath, ''http://www.w3.org/ns/odrl/2/uid''),
      (SH_sourceConstraintComponent, ''http://www.w3.org/ns/shacl#MinCountConstraintComponent''),
      (SH_resultMessage, ''Policy must have exactly one uid with IRI value'')]"

text \<open>The issue \<open>PolicyStructureValidator\<close> makes of that result.\<close>

definition ex_uid_issue :: ValidationIssue where
  "ex_uid_issue =
     \<lparr>issue_type = ''Missing Policy UID'',
      focus_node = ''http://example.com/p'',
      property_path = ''http://www.w3.org/ns/odrl/2/uid'',
      actual_value = ''not specified'',
      constraint_violated = ''ODRL Policy must have exactly one odrl:uid property with an IRI value'',
      severity = ''Violation''\<rparr>"

definition ex_shacl :: shacl_engine where
  "ex_shacl data_ttl shape_ttl =
     (if shape_ttl = PolicyStructure_shape_ttl \<and> \<not> py_in ''odrl:uid'' data_ttl
      then Inr [ex_uid_result] else Inr [])"

definition ex_policy_text :: string where
  "ex_policy_text = ''Alice can read the document''"

text \<open>A model that answers with the repaired document inside a Markdown fence.\<close>

definition ex_llm_reply :: string where
  \<open>ex_llm_reply = py_join ''\<newline>''
   [''Here is the corrected policy:'',
    ''```turtle'',
    ''@prefix odrl: <http://www.w3.org/ns/odrl/2/> .'',
    ''<http://example.com/p> a odrl:Policy ;'',
    ''    odrl:uid <http://example.com/p> ;'',
    ''    odrl:permission [ odrl:target <http://example.com/d> ; odrl:action odrl:read ] .'',
    ''```'',
    '''']\<close>

definition ex_fixing :: externals where
  "ex_fixing =
     \<lparr>shacl = ex_shacl,
      llm_invoke = (\<lambda>n prompt. Inr ex_llm_reply),
      utcnow_date = (\<lambda>n. ''2025-01-01'')\<rparr>"

text \<open>A model that hands the document back as it was.\<close>

definition ex_stuck :: externals where
  "ex_stuck =
     \<lparr>shacl = ex_shacl,
      llm_invoke = (\<lambda>n prompt. Inr ex_doc_no_uid),
      utcnow_date = (\<lambda>n. ''2025-01-01'')\<rparr>"

text \<open>The prompt a session sends for the document without \<open>odrl:uid\<close>.\<close>

definition ex_prompt :: string where
  "ex_prompt =
     ODRL_REGENERATION_PROMPT_format ''2025-01-01''
       (to_learning_prompt
          \<lparr>user_text = ex_policy_text, generated_kg = ex_doc_no_uid, is_valid = False,
           issues = [ex_uid_issue]\<rparr>)"

text \<open>What the session with the second model returns at ceiling 2.\<close>

definition ex_stuck_result :: loop_result where
  "ex_stuck_result =
     \<lparr>success = False,
      final_odrl = ex_doc_no_uid,
      attempts = 2,
      all_attempts =
        [\<lparr>info_attempt = 1, info_is_valid = False, info_issues = [ex_uid_issue],
          info_odrl_turtle = ex_doc_no_uid\<rparr>,
         \<lparr>info_attempt = 2, info_is_valid = False, info_issues = [ex_uid_issue],
          info_odrl_turtle = ex_doc_no_uid\<rparr>],
      final_issues = Some [ex_uid_issue]\<rparr>"

text \<open>A session whose documents do not parse: the engine raises on every call.\<close>

definition ex_unparsable :: externals where
  "ex_unparsable =
     \<lparr>shacl = (\<lambda>data_ttl shape_ttl. Inl (Exception ''Bad syntax at line 1'')),
      llm_invoke = (\<lambda>n prompt. Inr ''not turtle''),
      utcnow_date = (\<lambda>n. ''2025-01-01'')\<rparr>"

text \<open>The issues the two registered validators make of that error.\<close>

definition ex_parse_issues :: "ValidationIssue list" where
  "ex_parse_issues =
     [\<lparr>issue_type = ''Policy Structure Error'', focus_node = '''', property_path = '''',
       actual_value = '''',
       constraint_violated = ''Validation error: Bad syntax at line 1'',
       severity = ''Violation''\<rparr>,
      \<lparr>issue_type = ''Constraint Structure Error'', focus_node = '''', property_path = '''',
       actual_value = '''',
       constraint_violated = ''Validation error: Bad syntax at line 1'',
       severity = ''Violation''\<rparr>]"

text \<open>
  A policy with neither \<open>odrl:uid\<close> nor a rule, and the engine's answers on two calls
  for it: the policy shape reports the same two results both times (the missing
  \<open>odrl:uid\<close>, and the failed \<open>sh:or\<close> over the three kinds of rule), and the iteration over
  the report graph yields them in one order on the first call and in the other on the
  second.
\<close>

definition ex_doc_bare :: string where
  \<open>ex_doc_bare = py_join ''\<newline>''
   [''@prefix odrl: <http://www.w3.org/ns/odrl/2/> .'',
    ''<http://example.com/p> a odrl:Policy .'']\<close>

definition ex_rules_result :: "(sh_pred \<times> string) list" where
  "ex_rules_result =
     [(SH_focusNode, ''http://example.com/p''),
      (SH_value, ''http://example.com/p''),
      (SH_sourceConstraintComponent, ''http://www.w3.org/ns/shacl#OrConstraintComponent''),
      (SH_resultMessage, ''Policy must have at least one rule'')]"

definition ex_rules_issue :: ValidationIssue where
  "ex_rules_issue =
     \<lparr>issue_type = ''Missing Policy Rules'',
      focus_node = ''http://example.com/p'',
      property_path = '''',
      actual_value = ''http://example.com/p'',
      constraint_violated = ''ODRL Policy must contain at least one Rule (permission/prohibition/obligation)'',
      severity = ''Violation''\<rparr>"

definition ex_shacl_first_call :: shacl_engine where
  "ex_shacl_first_call data_ttl shape_ttl =
     (if shape_ttl = PolicyStructure_shape_ttl
      then Inr [ex_rules_result, ex_uid_result] else Inr [])"

definition ex_shacl_second_call :: shacl_engine where
  "ex_shacl_second_call data_ttl shape_ttl =
     (if shape_ttl = PolicyStructure_shape_ttl
      then Inr [ex_uid_result, ex_rules_result] else Inr [])"

text \<open>
  A document with the constraint \<open>count isAnyOf\<close>, and an engine that answers for it: the
  two structure shapes report nothing (operand and operator are both in the vocabulary);
  the compatibility shape, were it asked, reports the operator.
\<close>

definition ex_doc_count_isAnyOf :: string where
  \<open>ex_doc_count_isAnyOf = py_join ''\<newline>''
   [''@prefix odrl: <http://www.w3.org/ns/odrl/2/> .'',
    ''<http://example.com/p> a odrl:Policy ;'',
    ''    odrl:uid <http://example.com/p> ;'',
    ''    odrl:permission [ odrl:target <http://example.com/d> ; odrl:action odrl:read ;'',
    ''        odrl:constraint <http://example.com/c> ] .'',
    ''<http://example.com/c> a odrl:Constraint ;'',
    ''    odrl:leftOperand odrl:count ; odrl:operator odrl:isAnyOf ; odrl:rightOperand 5 .'']\<close>

definition ex_incompatible_result :: "(sh_pred \<times> string) list" where
  "ex_incompatible_result =
     [(SH_focusNode, ''http://example.com/c''),
      (SH_value, ''http://www.w3.org/ns/odrl/2/isAnyOf''),
      (SH_sourceConstraintComponent, ''http://www.w3.org/ns/shacl#SPARQLConstraintComponent''),
      (SH_resultMessage, ''Incompatible operator for count'')]"

definition ex_shacl_count :: shacl_engine where
  "ex_shacl_count data_ttl shape_ttl =
     (if shape_ttl = PolicyStructure_shape_ttl \<or> shape_ttl = ConstraintStructure_shape_ttl
      then Inr [] else Inr [ex_incompatible_result])"

text \<open>An iteration order for a set of operators: the declaration order of its members.\<close>

definition ex_set_iter :: "OperatorType set \<Rightarrow> OperatorType list" where
  "ex_set_iter ops = filter (\<lambda>op. op \<in> ops) OperatorType_members"

text \<open>A signal with the single keyword hit \<open>urgent\<close>.\<close>

definition ex_signal_urgent :: conflict_signal where
  "ex_signal_urgent = \<lparr>keyword_hits = [''urgent''], structural_matches = []\<rparr>"

text \<open>
  A signal whose keyword belongs to the second entry and whose structural match belongs
  to the sixth.
\<close>

definition ex_signal_two :: conflict_signal where
  "ex_signal_two =
     \<lparr>keyword_hits = [''all data''],
      structural_matches = [[(''action_subsumption'', PyBool True)]]\<rparr>"


section \<open>Properties of the validation tool\<close>

lemma validate_kg_valid_iff:
  "is_valid (validate_kg sh tool u kg) = (issues (validate_kg sh tool u kg) = [])"
  by (simp add: validate_kg_def Let_def)

lemma validate_kg_issues:
  "issues (validate_kg sh tool u kg) =
     foldl (\<lambda>acc v. acc @ process_violations v (run_shacl_validation sh kg (get_shape_ttl v)))
       [] (validators tool)"
  by (simp add: validate_kg_def Let_def)

lemma validate_kg_init_issues:
  "issues (validate_kg sh ODRLValidationTool_init u kg) =
     map PolicyStructure_issue (run_shacl_validation sh kg PolicyStructure_shape_ttl)
     @ map ConstraintStructure_issue (run_shacl_validation sh kg ConstraintStructure_shape_ttl)"
  by (simp add: validate_kg_issues ODRLValidationTool_init_def PolicyStructureValidator_def
      ConstraintStructureValidator_def)

text \<open>
  C4. For every engine, tool, user text and document, the report \<open>validate_kg\<close> returns
  has \<open>is_valid\<close> true exactly when its \<open>issues\<close> list is empty.
\<close>

theorem validate_kg_is_valid_iff_no_issues:
  "is_valid (validate_kg sh tool u kg) \<longleftrightarrow> issues (validate_kg sh tool u kg) = []"
  by (rule validate_kg_valid_iff)

lemma shapes_differ: "ConstraintStructure_shape_ttl \<noteq> PolicyStructure_shape_ttl"
  unfolding ConstraintStructure_shape_ttl_def PolicyStructure_shape_ttl_def
  by (simp add: Let_def)

lemma ex_doc_no_uid_lacks_uid: "\<not> py_in ''odrl:uid'' ex_doc_no_uid"
  by (simp add: ex_doc_no_uid_def)

lemma ex_doc_uid_has_uid: "py_in ''odrl:uid'' ex_doc_uid"
  by (simp add: ex_doc_uid_def)

lemma ex_report_no_uid:
  "validate_kg ex_shacl ODRLValidationTool_init u ex_doc_no_uid =
     \<lparr>user_text = u, generated_kg = ex_doc_no_uid, is_valid = False, issues = [ex_uid_issue]\<rparr>"
  by (simp add: validate_kg_def ODRLValidationTool_init_def Let_def run_shacl_validation_def
      ex_shacl_def ex_doc_no_uid_lacks_uid shapes_differ PolicyStructureValidator_def
      ConstraintStructureValidator_def ex_uid_result_def PolicyStructure_issue_def dict_get_def
      ex_uid_issue_def)

lemma ex_report_uid:
  "validate_kg ex_shacl ODRLValidationTool_init u ex_doc_uid =
     \<lparr>user_text = u, generated_kg = ex_doc_uid, is_valid = True, issues = []\<rparr>"
  by (simp add: validate_kg_def ODRLValidationTool_init_def Let_def run_shacl_validation_def
      ex_shacl_def ex_doc_uid_has_uid PolicyStructureValidator_def
      ConstraintStructureValidator_def)

lemma ex_report_count:
  "validate_kg ex_shacl_count ODRLValidationTool_init u kg =
     \<lparr>user_text = u, generated_kg = kg, is_valid = True, issues = []\<rparr>"
  by (simp add: validate_kg_def ODRLValidationTool_init_def Let_def run_shacl_validation_def
      ex_shacl_count_def PolicyStructureValidator_def ConstraintStructureValidator_def)

lemma ex_issues_first_call:
  "issues (validate_kg ex_shacl_first_call ODRLValidationTool_init u ex_doc_bare)
     = [ex_rules_issue, ex_uid_issue]"
  by (simp add: validate_kg_init_issues run_shacl_validation_def ex_shacl_first_call_def
      shapes_differ ex_rules_result_def ex_uid_result_def PolicyStructure_issue_def
      dict_get_def ex_rules_issue_def ex_uid_issue_def)

lemma ex_issues_second_call:
  "issues (validate_kg ex_shacl_second_call ODRLValidationTool_init u ex_doc_bare)
     = [ex_uid_issue, ex_rules_issue]"
  by (simp add: validate_kg_init_issues run_shacl_validation_def ex_shacl_second_call_def
      shapes_differ ex_rules_result_def ex_uid_result_def PolicyStructure_issue_def
      dict_get_def ex_rules_issue_def ex_uid_issue_def)

text \<open>
  C9, as the claim states it, fails: the order of the issues is the order in which the
  iteration over the engine's report graph yields the results, and nothing in
  \<open>validate_kg\<close> fixes it. For the policy with neither \<open>odrl:uid\<close> nor a rule, two calls on
  the same input and the same validators, in which the engine reports the same two results
  in a different order, return the two issues in a different order.
\<close>

theorem issue_order_follows_engine_order:
  "issues (validate_kg ex_shacl_first_call ODRLValidationTool_init ex_policy_text ex_doc_bare)
     = [ex_rules_issue, ex_uid_issue]
   \<and> issues (validate_kg ex_shacl_second_call ODRLValidationTool_init ex_policy_text ex_doc_bare)
     = [ex_uid_issue, ex_rules_issue]"
  by (simp add: ex_issues_first_call ex_issues_second_call)

text \<open>
  C9, amended. \<open>validate_kg\<close> keeps no state, and each registered validator makes one
  issue of each violation \<open>_run_shacl_validation\<close> extracts, without sorting. So for every
  fixed input, two calls with the registered validators in which the same violations are
  extracted for each validator's shape, in whatever order, return reports with the same
  issues counted with multiplicity, the same \<open>is_valid\<close> flag and the same texts; the
  order of the issues is not determined.
\<close>

theorem validate_kg_same_issues_up_to_order:
  assumes "\<And>v. v \<in> set (validators ODRLValidationTool_init) \<Longrightarrow>
             mset (run_shacl_validation shacl1 kg (get_shape_ttl v))
             = mset (run_shacl_validation shacl2 kg (get_shape_ttl v))"
  shows "mset (issues (validate_kg shacl1 ODRLValidationTool_init u kg))
           = mset (issues (validate_kg shacl2 ODRLValidationTool_init u kg))
       \<and> is_valid (validate_kg shacl1 ODRLValidationTool_init u kg)
           = is_valid (validate_kg shacl2 ODRLValidationTool_init u kg)
       \<and> user_text (validate_kg shacl1 ODRLValidationTool_init u kg)
           = user_text (validate_kg shacl2 ODRLValidationTool_init u kg)
       \<and> generated_kg (validate_kg shacl1 ODRLValidationTool_init u kg)
           = generated_kg (validate_kg shacl2 ODRLValidationTool_init u kg)"
proof -
  have p: "mset (run_shacl_validation shacl1 kg PolicyStructure_shape_ttl)
         = mset (run_shacl_validation shacl2 kg PolicyStructure_shape_ttl)"
    using assms [of PolicyStructureValidator]
    by (simp add: ODRLValidationTool_init_def) (simp add: PolicyStructureValidator_def)
  have c: "mset (run_shacl_validation shacl1 kg ConstraintStructure_shape_ttl)
         = mset (run_shacl_validation shacl2 kg ConstraintStructure_shape_ttl)"
    using assms [of ConstraintStructureValidator]
    by (simp add: ODRLValidationTool_init_def) (simp add: ConstraintStructureValidator_def)
  have m: "mset (issues (validate_kg shacl1 ODRLValidationTool_init u kg))
         = mset (issues (validate_kg shacl2 ODRLValidationTool_init u kg))"
    by (simp add: validate_kg_init_issues p c)
  then have "(issues (validate_kg shacl1 ODRLValidationTool_init u kg) = [])
           = (issues (validate_kg shacl2 ODRLValidationTool_init u kg) = [])"
    by (metis mset_zero_iff)
  then have v: "is_valid (validate_kg shacl1 ODRLValidationTool_init u kg)
              = is_valid (validate_kg shacl2 ODRLValidationTool_init u kg)"
    by (simp only: validate_kg_valid_iff)
  have t: "user_text (validate_kg shacl1 ODRLValidationTool_init u kg) = u"
      "user_text (validate_kg shacl2 ODRLValidationTool_init u kg) = u"
      "generated_kg (validate_kg shacl1 ODRLValidationTool_init u kg) = kg"
      "generated_kg (validate_kg shacl2 ODRLValidationTool_init u kg) = kg"
    by (simp_all add: validate_kg_def Let_def)
  from m v t show ?thesis by simp
qed

theorem validate_kg_same_issues_up_to_order_witness:
  "mset (issues (validate_kg ex_shacl_first_call ODRLValidationTool_init ex_policy_text ex_doc_bare))
     = mset (issues (validate_kg ex_shacl_second_call ODRLValidationTool_init ex_policy_text ex_doc_bare))
   \<and> issues (validate_kg ex_shacl_first_call ODRLValidationTool_init ex_policy_text ex_doc_bare)
     \<noteq> issues (validate_kg ex_shacl_second_call ODRLValidationTool_init ex_policy_text ex_doc_bare)
   \<and> \<not> is_valid (validate_kg ex_shacl_first_call ODRLValidationTool_init ex_policy_text ex_doc_bare)
   \<and> \<not> is_valid (validate_kg ex_shacl_second_call ODRLValidationTool_init ex_policy_text ex_doc_bare)"
proof -
  have h: "\<And>v. v \<in> set (validators ODRLValidationTool_init) \<Longrightarrow>
             mset (run_shacl_validation ex_shacl_first_call ex_doc_bare (get_shape_ttl v))
             = mset (run_shacl_validation ex_shacl_second_call ex_doc_bare (get_shape_ttl v))"
    by (auto simp add: ODRLValidationTool_init_def PolicyStructureValidator_def
        ConstraintStructureValidator_def run_shacl_validation_def ex_shacl_first_call_def
        ex_shacl_second_call_def shapes_differ)
  have d: "ex_rules_issue \<noteq> ex_uid_issue"
    by (simp add: ex_rules_issue_def ex_uid_issue_def)
  from validate_kg_same_issues_up_to_order [OF h, of ex_policy_text] d
  show ?thesis
    by (simp add: ex_issues_first_call ex_issues_second_call validate_kg_valid_iff)
qed

text \<open>
  C7, as the claim states it, fails: for the document with the constraint
  \<open>count isAnyOf\<close>, \<open>validate_kg\<close> reports no issue at all; the compatibility shape, to
  which the engine would report the operator, is never put to it.
\<close>

theorem count_isAnyOf_not_reported:
  "issues (validate_kg ex_shacl_count ODRLValidationTool_init ex_policy_text ex_doc_count_isAnyOf) = []"
  by (simp add: ex_report_count)

text \<open>
  C7, amended. The compatibility check exists as \<open>ConstraintCompatibilityValidator\<close>:
  its \<open>process_violations\<close> makes of every SHACL result exactly one issue, of type
  \<open>Operator Compatibility\<close> and severity \<open>Warning\<close>. \<open>ODRLValidationTool\<close> does not register
  this validator, so \<open>validate_kg\<close> reports no operand/operator incompatibility: every
  issue it returns has severity \<open>Violation\<close> and another type.
\<close>

theorem compatibility_warning_only_from_unregistered_validator:
  "map severity (process_violations (ConstraintCompatibilityValidator set_iter) violations)
     = replicate (length violations) ''Warning''
   \<and> map issue_type (process_violations (ConstraintCompatibilityValidator set_iter) violations)
     = replicate (length violations) ''Operator Compatibility''
   \<and> list_all (\<lambda>issue. severity issue = ''Violation''
                  \<and> issue_type issue \<noteq> ''Operator Compatibility'')
        (issues (validate_kg sh ODRLValidationTool_init u kg))"
proof -
  have sev: "\<And>v. severity (Compatibility_issue set_iter v) = ''Warning''"
    and ty: "\<And>v. issue_type (Compatibility_issue set_iter v) = ''Operator Compatibility''"
    by (simp_all add: Compatibility_issue_def Let_def)
  have p: "\<And>v. severity (PolicyStructure_issue v) = ''Violation''
              \<and> issue_type (PolicyStructure_issue v) \<noteq> ''Operator Compatibility''"
    by (simp add: PolicyStructure_issue_def Let_def)
  have c: "\<And>v. severity (ConstraintStructure_issue v) = ''Violation''
              \<and> issue_type (ConstraintStructure_issue v) \<noteq> ''Operator Compatibility''"
    by (simp add: ConstraintStructure_issue_def Let_def)
  have "map severity (map (Compatibility_issue set_iter) violations)
          = replicate (length violations) ''Warning''"
    by (induction violations) (simp_all add: sev)
  moreover have "map issue_type (map (Compatibility_issue set_iter) violations)
          = replicate (length violations) ''Operator Compatibility''"
    by (induction violations) (simp_all add: ty)
  moreover have "list_all (\<lambda>issue. severity issue = ''Violation''
                  \<and> issue_type issue \<noteq> ''Operator Compatibility'')
        (issues (validate_kg sh ODRLValidationTool_init u kg))"
    using p c by (auto simp add: validate_kg_init_issues list_all_iff)
  ultimately show ?thesis
    by (simp only: ConstraintCompatibilityValidator_def validator.simps simp_thms)
qed

theorem compatibility_warning_only_from_unregistered_validator_witness:
  "map severity (process_violations (ConstraintCompatibilityValidator ex_set_iter)
      [[''message'' \<mapsto> ''Incompatible operator for count'']]) = [''Warning'']
   \<and> list_all (\<lambda>issue. severity issue = ''Violation''
                  \<and> issue_type issue \<noteq> ''Operator Compatibility'')
        (issues (validate_kg ex_shacl ODRLValidationTool_init ex_policy_text ex_doc_no_uid))"
  using compatibility_warning_only_from_unregistered_validator
    [of ex_set_iter "[[''message'' \<mapsto> ''Incompatible operator for count'']]"
        ex_shacl ex_policy_text ex_doc_no_uid]
  by simp


section \<open>Properties of the validator agent\<close>

declare attempt_loop.simps [simp del]

text \<open>
  C10. When the report of a validation result is valid, \<open>regenerate\<close> returns the
  report's document text unchanged with \<open>regenerated\<close> false, and the trace of calls is
  the one it was given: the language model is not invoked, whatever it would answer.
\<close>

theorem regenerate_valid_report_unchanged:
  "is_valid (validation_report vr) \<Longrightarrow>
   regenerate ext self vr tr =
     (Inr \<lparr>odrl_turtle = generated_kg (validation_report vr), regenerated = False,
            original_issues = None\<rparr>, tr)"
  by (simp add: regenerate_def Let_def)

theorem regenerate_valid_report_unchanged_witness:
  "is_valid (validation_report
      \<lparr>vr_is_valid = True,
       validation_report = validate_kg ex_shacl ODRLValidationTool_init ex_policy_text ex_doc_uid\<rparr>)
   \<and> regenerate ex_stuck ex_agent
      \<lparr>vr_is_valid = True,
       validation_report = validate_kg ex_shacl ODRLValidationTool_init ex_policy_text ex_doc_uid\<rparr>
      [Validate ex_doc_uid]
     = (Inr \<lparr>odrl_turtle = ex_doc_uid, regenerated = False, original_issues = None\<rparr>,
        [Validate ex_doc_uid])"
  using regenerate_valid_report_unchanged
    [of "\<lparr>vr_is_valid = True,
          validation_report = validate_kg ex_shacl ODRLValidationTool_init ex_policy_text ex_doc_uid\<rparr>"
        ex_stuck ex_agent "[Validate ex_doc_uid]"]
  by (simp add: ex_report_uid)

subsection \<open>One pass of the loop\<close>

lemma regenerate_invalid:
  assumes "\<not> is_valid (validation_report vr)"
  shows "regenerate ext self vr tr =
     (let n = length (filter is_Invoke tr);
          prompt = ODRL_REGENERATION_PROMPT_format (utcnow_date ext n)
                     (to_learning_prompt (validation_report vr))
      in case llm_invoke ext n prompt of
           Inl e \<Rightarrow> (Inl e, tr @ [Invoke prompt])
         | Inr content \<Rightarrow>
             (Inr \<lparr>odrl_turtle = clean_turtle content, regenerated = True,
                    original_issues = Some (issues (validation_report vr))\<rparr>,
              tr @ [Invoke prompt]))"
  using assms by (simp add: regenerate_def Let_def)

lemma attempt_loop_beyond:
  "m < a \<Longrightarrow> attempt_loop ext self p m a d all info tr = (failed_after_max m d all info, tr)"
  by (simp add: attempt_loop.simps)

lemma attempt_loop_valid:
  assumes "a \<le> m" and "is_valid (validate_kg (shacl ext) (validator_tool self) p d)"
  shows "attempt_loop ext self p m a d all info tr =
     (Inr \<lparr>success = True, final_odrl = d, attempts = a,
            all_attempts = all @ [\<lparr>info_attempt = a, info_is_valid = True,
               info_issues = issues (validate_kg (shacl ext) (validator_tool self) p d),
               info_odrl_turtle = d\<rparr>],
            final_issues = None\<rparr>, tr @ [Validate d])"
  using assms by (simp add: attempt_loop.simps validate_def Let_def)

lemma attempt_loop_last:
  assumes "\<not> is_valid (validate_kg (shacl ext) (validator_tool self) p d)"
  shows "attempt_loop ext self p m m d all info tr =
     (Inr \<lparr>success = False, final_odrl = d, attempts = m,
            all_attempts = all @ [\<lparr>info_attempt = m, info_is_valid = False,
               info_issues = issues (validate_kg (shacl ext) (validator_tool self) p d),
               info_odrl_turtle = d\<rparr>],
            final_issues = Some (issues (validate_kg (shacl ext) (validator_tool self) p d))\<rparr>,
      tr @ [Validate d])"
  using assms by (simp add: attempt_loop.simps validate_def Let_def failed_after_max_def)

lemma attempt_loop_step:
  assumes "a < m" and "\<not> is_valid (validate_kg (shacl ext) (validator_tool self) p d)"
  shows "attempt_loop ext self p m a d all info tr =
     (let report = validate_kg (shacl ext) (validator_tool self) p d;
          i = \<lparr>info_attempt = a, info_is_valid = False, info_issues = issues report,
               info_odrl_turtle = d\<rparr>
      in case regenerate ext self \<lparr>vr_is_valid = False, validation_report = report\<rparr>
                (tr @ [Validate d]) of
           (Inl e, tr2) \<Rightarrow> (Inl e, tr2)
         | (Inr rr, tr2) \<Rightarrow>
             attempt_loop ext self p m (a + 1) (odrl_turtle rr) (all @ [i]) (Some i) tr2)"
  using assms by (simp add: attempt_loop.simps validate_def Let_def split: prod.splits sum.splits)


subsection \<open>The attempt count\<close>

lemma attempt_loop_result:
  assumes "a \<le> m"
    and "attempt_loop ext self p m a d all info tr = (Inr r, tr')"
  shows "a \<le> attempts r \<and> attempts r \<le> m \<and> all_attempts r \<noteq> [] \<and>
         (if success r
          then info_issues (last (all_attempts r)) = []
               \<and> info_attempt (last (all_attempts r)) = attempts r
          else attempts r = m
               \<and> info_issues (last (all_attempts r)) \<noteq> []
               \<and> final_issues r = Some (info_issues (last (all_attempts r))))"
  using assms
proof (induction "nat (m - a)" arbitrary: a d all info tr)
  case 0
  then have am: "a = m" by simp
  show ?case
  proof (cases "is_valid (validate_kg (shacl ext) (validator_tool self) p d)")
    case True
    with 0 am show ?thesis
      by (auto simp add: attempt_loop_valid validate_kg_valid_iff)
  next
    case False
    with 0 am show ?thesis
      by (auto simp add: attempt_loop_last validate_kg_valid_iff)
  qed
next
  case (Suc n)
  then have am: "a < m" by simp
  show ?case
  proof (cases "is_valid (validate_kg (shacl ext) (validator_tool self) p d)")
    case True
    with Suc.prems show ?thesis
      by (auto simp add: attempt_loop_valid validate_kg_valid_iff)
  next
    case False
    obtain x tr2 where reg: "regenerate ext self
        \<lparr>vr_is_valid = False,
           validation_report = validate_kg (shacl ext) (validator_tool self) p d\<rparr>
        (tr @ [Validate d]) = (x, tr2)"
      by (cases "regenerate ext self
        \<lparr>vr_is_valid = False,
           validation_report = validate_kg (shacl ext) (validator_tool self) p d\<rparr>
        (tr @ [Validate d])") auto
    show ?thesis
    proof (cases x)
      case (Inl e)
      with Suc.prems(2) am False reg show ?thesis
        by (simp add: attempt_loop_step Let_def)
    next
      case (Inr rr)
      let ?i = "\<lparr>info_attempt = a, info_is_valid = False,
                  info_issues = issues (validate_kg (shacl ext) (validator_tool self) p d),
                  info_odrl_turtle = d\<rparr>"
      from Suc.prems(2) am False reg Inr
      have rec: "attempt_loop ext self p m (a + 1) (odrl_turtle rr) (all @ [?i]) (Some ?i) tr2
                 = (Inr r, tr')"
        by (simp add: attempt_loop_step Let_def)
      from Suc.hyps(2) am have n: "n = nat (m - (a + 1))" by simp
      from am have le: "a + 1 \<le> m" by simp
      from Suc.hyps(1) [OF n le rec] show ?thesis by auto
    qed
  qed
qed


text \<open>
  C1, as the claim states it, fails: at ceiling 1 a document that is valid on the first
  pass gives \<open>attempts = 1\<close>, the ceiling, and the final pass reported no violation.
\<close>

theorem attempts_at_ceiling_after_clean_pass:
  "fst (validate_and_regenerate ex_fixing ex_agent ex_policy_text ex_doc_uid 1) =
     Inr \<lparr>success = True, final_odrl = ex_doc_uid, attempts = 1,
          all_attempts = [\<lparr>info_attempt = 1, info_is_valid = True, info_issues = [],
                           info_odrl_turtle = ex_doc_uid\<rparr>],
          final_issues = None\<rparr>"
  by (simp add: validate_and_regenerate_def attempt_loop_valid ex_fixing_def ex_agent_def
      ex_report_uid)

text \<open>
  C1, amended. Whenever \<open>validate_and_regenerate\<close> returns a result, \<open>attempts\<close> is at
  least 1 and at most \<open>max_attempts\<close>. A failure result has \<open>attempts = max_attempts\<close> and
  its final validation pass still reported at least one violation, which \<open>final_issues\<close>
  repeats. A success result has as \<open>attempts\<close> the number of the pass that reported no
  violation, which may be \<open>max_attempts\<close> itself.
\<close>

theorem attempts_within_ceiling:
  assumes "fst (validate_and_regenerate ext self p d m) = Inr r"
  shows "1 \<le> attempts r \<and> attempts r \<le> m \<and>
         (if success r
          then info_issues (last (all_attempts r)) = []
               \<and> info_attempt (last (all_attempts r)) = attempts r
          else attempts r = m
               \<and> info_issues (last (all_attempts r)) \<noteq> []
               \<and> final_issues r = Some (info_issues (last (all_attempts r))))"
proof (cases "1 \<le> m")
  case True
  obtain tr where "attempt_loop ext self p m 1 d [] None [] = (Inr r, tr)"
    using assms by (cases "attempt_loop ext self p m 1 d [] None []")
      (simp add: validate_and_regenerate_def)
  from attempt_loop_result [OF True this] show ?thesis by simp
next
  case False
  then have "m < 1" by simp
  with assms show ?thesis
    by (simp add: validate_and_regenerate_def attempt_loop_beyond failed_after_max_def)
qed



lemma clean_turtle_no_uid: "clean_turtle ex_doc_no_uid = ex_doc_no_uid"
  by (simp add: clean_turtle_def ex_doc_no_uid_def Let_def py_split_def
      py_strip_def py_lstrip_def py_rstrip_def py_whitespace_def)

lemma clean_turtle_reply: "clean_turtle ex_llm_reply = ex_doc_uid"
  by (simp add: clean_turtle_def ex_llm_reply_def ex_doc_uid_def Let_def py_split_def
      py_strip_def py_lstrip_def py_rstrip_def py_whitespace_def)

lemma ex_stuck_run:
  "fst (validate_and_regenerate ex_stuck ex_agent ex_policy_text ex_doc_no_uid 2)
     = Inr ex_stuck_result"
  by (simp add: validate_and_regenerate_def attempt_loop_step attempt_loop_last
      regenerate_invalid ex_stuck_def ex_agent_def ex_report_no_uid clean_turtle_no_uid
      ex_stuck_result_def Let_def)

theorem attempts_within_ceiling_witness:
  "fst (validate_and_regenerate ex_stuck ex_agent ex_policy_text ex_doc_no_uid 2)
     = Inr ex_stuck_result
   \<and> 1 \<le> attempts ex_stuck_result \<and> attempts ex_stuck_result \<le> 2
   \<and> \<not> success ex_stuck_result
   \<and> info_issues (last (all_attempts ex_stuck_result)) \<noteq> []"
  using attempts_within_ceiling [OF ex_stuck_run] ex_stuck_run
  by (simp add: ex_stuck_result_def)

subsection \<open>A clean pass ends the session\<close>

lemma snoc_eq_split:
  assumes "xs @ [x] = pre @ y # post" and "y \<notin> set xs"
  shows "post = [] \<and> pre = xs \<and> x = y"
proof (cases post rule: rev_cases)
  case Nil
  with assms(1) show ?thesis by simp
next
  case (snoc ps z)
  with assms(1) have "xs @ [x] = (pre @ y # ps) @ [z]" by simp
  then have "xs = pre @ y # ps" by (simp only: append1_eq_conv)
  with assms(2) show ?thesis by simp
qed

lemma attempt_loop_clean_is_last:
  assumes "attempt_loop ext self p m a d all info tr0 = (res, tr)"
    and "\<And>x. Validate x \<in> set tr0 \<Longrightarrow> issues (validate_kg (shacl ext) (validator_tool self) p x) \<noteq> []"
    and "a = int (length (filter is_Validate tr0)) + 1"
    and "tr = pre @ Validate d' # post"
    and "issues (validate_kg (shacl ext) (validator_tool self) p d') = []"
  shows "post = [] \<and>
         (\<exists>r. res = Inr r \<and> success r
              \<and> attempts r = int (length (filter is_Validate pre)) + 1
              \<and> attempts r \<le> m \<and> final_odrl r = d')"
  using assms
proof (induction "nat (m + 1 - a)" arbitrary: a d all info tr0)
  case 0
  then have "m < a" by simp
  with "0.prems"(1) have "tr = tr0" by (simp add: attempt_loop_beyond)
  with "0.prems"(4) have "Validate d' \<in> set tr0" by simp
  from "0.prems"(2) [OF this] "0.prems"(5) show ?case by simp
next
  case (Suc n)
  let ?R = "validate_kg (shacl ext) (validator_tool self) p"
  from Suc.hyps(2) have am: "a \<le> m" by simp
  have fresh: "Validate d' \<notin> set tr0"
    using Suc.prems(2) [of d'] Suc.prems(5) by auto
  show ?case
  proof (cases "is_valid (?R d)")
    case True
    from Suc.prems(1) am True
    have res: "res = Inr \<lparr>success = True, final_odrl = d, attempts = a,
            all_attempts = all @ [\<lparr>info_attempt = a, info_is_valid = True,
               info_issues = issues (?R d), info_odrl_turtle = d\<rparr>],
            final_issues = None\<rparr>" and tr: "tr = tr0 @ [Validate d]"
      by (simp_all add: attempt_loop_valid)
    from tr Suc.prems(4) have "tr0 @ [Validate d] = pre @ Validate d' # post" by simp
    from snoc_eq_split [OF this fresh] have "post = []" "pre = tr0" "d = d'" by simp_all
    with res Suc.prems(3) am show ?thesis by simp
  next
    case False
    then have bad: "issues (?R d) \<noteq> []" by (simp add: validate_kg_valid_iff)
    with Suc.prems(5) have dd: "d' \<noteq> d" by auto
    show ?thesis
    proof (cases "a = m")
      case True
      with Suc.prems(1) False have "tr = tr0 @ [Validate d]"
        by (simp add: attempt_loop_last)
      with Suc.prems(4) have "Validate d' \<in> set (tr0 @ [Validate d])" by simp
      with fresh dd show ?thesis by simp
    next
      case False
      with am have lt: "a < m" by simp
      let ?n = "length (filter is_Invoke (tr0 @ [Validate d]))"
      let ?q = "ODRL_REGENERATION_PROMPT_format (utcnow_date ext ?n)
                  (to_learning_prompt (?R d))"
      let ?tr2 = "(tr0 @ [Validate d]) @ [Invoke ?q]"
      let ?i = "\<lparr>info_attempt = a, info_is_valid = False,
                  info_issues = issues (?R d), info_odrl_turtle = d\<rparr>"
      show ?thesis
      proof (cases "llm_invoke ext ?n ?q")
        case (Inl e)
        with Suc.prems(1) lt \<open>\<not> is_valid (?R d)\<close> have "tr = ?tr2"
          by (simp add: attempt_loop_step regenerate_invalid Let_def)
        with Suc.prems(4) have "Validate d' \<in> set ?tr2" by simp
        with fresh dd show ?thesis by simp
      next
        case (Inr content)
        with Suc.prems(1) lt \<open>\<not> is_valid (?R d)\<close>
        have rec: "attempt_loop ext self p m (a + 1) (clean_turtle content)
                     (all @ [?i]) (Some ?i) ?tr2 = (res, tr)"
          by (simp add: attempt_loop_step regenerate_invalid Let_def)
        from Suc.hyps(2) have n: "n = nat (m + 1 - (a + 1))" by simp
        have inv: "\<And>x. Validate x \<in> set ?tr2 \<Longrightarrow> issues (?R x) \<noteq> []"
          using Suc.prems(2) bad by auto
        from Suc.prems(3) have cnt: "a + 1 = int (length (filter is_Validate ?tr2)) + 1"
          by simp
        from Suc.hyps(1) [OF n rec inv cnt Suc.prems(4) Suc.prems(5)] show ?thesis .
      qed
    qed
  qed
qed


text \<open>
  C3. In the trace of a call of \<open>validate_and_regenerate\<close>, a validation pass on a
  document for which validation reports no violation is the last event: no invocation
  of the language model and no further pass follows it. The call then returns success
  with that document, and \<open>attempts\<close> is the number of that pass (one more than the passes
  before it), which is at most the ceiling.
\<close>

theorem clean_pass_ends_session:
  assumes "snd (validate_and_regenerate ext self p d m) = pre @ Validate d' # post"
    and "issues (validate_kg (shacl ext) (validator_tool self) p d') = []"
  shows "post = [] \<and>
         (\<exists>r. fst (validate_and_regenerate ext self p d m) = Inr r \<and> success r
              \<and> attempts r = int (length (filter is_Validate pre)) + 1
              \<and> attempts r \<le> m \<and> final_odrl r = d')"
proof -
  obtain res tr where run: "attempt_loop ext self p m 1 d [] None [] = (res, tr)"
    by (cases "attempt_loop ext self p m 1 d [] None []") auto
  with assms(1) have tr: "tr = pre @ Validate d' # post"
    by (simp add: validate_and_regenerate_def)
  from attempt_loop_clean_is_last [OF run _ _ tr assms(2)] run show ?thesis
    by (simp add: validate_and_regenerate_def)
qed

lemma ex_fixing_run:
  "validate_and_regenerate ex_fixing ex_agent ex_policy_text ex_doc_no_uid 3 =
     (Inr \<lparr>success = True, final_odrl = ex_doc_uid, attempts = 2,
           all_attempts =
             [\<lparr>info_attempt = 1, info_is_valid = False, info_issues = [ex_uid_issue],
               info_odrl_turtle = ex_doc_no_uid\<rparr>,
              \<lparr>info_attempt = 2, info_is_valid = True, info_issues = [],
               info_odrl_turtle = ex_doc_uid\<rparr>],
           final_issues = None\<rparr>,
      [Validate ex_doc_no_uid, Invoke ex_prompt, Validate ex_doc_uid])"
  by (simp add: validate_and_regenerate_def attempt_loop_step attempt_loop_valid
      regenerate_invalid ex_fixing_def ex_agent_def ex_report_no_uid ex_report_uid
      clean_turtle_reply ex_prompt_def Let_def)

theorem clean_pass_ends_session_witness:
  "snd (validate_and_regenerate ex_fixing ex_agent ex_policy_text ex_doc_no_uid 3)
     = [Validate ex_doc_no_uid, Invoke ex_prompt] @ Validate ex_doc_uid # []
   \<and> issues (validate_kg (shacl ex_fixing) (validator_tool ex_agent) ex_policy_text ex_doc_uid) = []
   \<and> (\<exists>r. fst (validate_and_regenerate ex_fixing ex_agent ex_policy_text ex_doc_no_uid 3) = Inr r
          \<and> success r \<and> attempts r = 2 \<and> attempts r \<le> 3 \<and> final_odrl r = ex_doc_uid)"
proof -
  have tr: "snd (validate_and_regenerate ex_fixing ex_agent ex_policy_text ex_doc_no_uid 3)
     = [Validate ex_doc_no_uid, Invoke ex_prompt] @ Validate ex_doc_uid # []"
    by (simp add: ex_fixing_run)
  have clean: "issues (validate_kg (shacl ex_fixing) (validator_tool ex_agent)
                  ex_policy_text ex_doc_uid) = []"
    by (simp add: ex_fixing_def ex_agent_def ex_report_uid)
  from clean_pass_ends_session [OF tr clean] tr clean show ?thesis by simp
qed

subsection \<open>A session that never conforms\<close>

text \<open>
  C2. At ceiling 3, when the document has a violation, the language model answers every
  invocation, and every document it answers with still has a violation, the call makes
  exactly three validation passes and exactly two invocations of the language model, in
  alternation and ending with a validation pass (no invocation on the final attempt), and
  returns a failure result with \<open>attempts = 3\<close>.
\<close>

theorem ceiling_three_never_conforming:
  assumes first: "issues (validate_kg (shacl ext) (validator_tool self) p d) \<noteq> []"
    and again: "\<And>n q t. llm_invoke ext n q = Inr t \<Longrightarrow>
        issues (validate_kg (shacl ext) (validator_tool self) p (clean_turtle t)) \<noteq> []"
    and answers: "\<And>n q. \<exists>t. llm_invoke ext n q = Inr t"
  shows "\<exists>r tr. validate_and_regenerate ext self p d 3 = (Inr r, tr)
           \<and> \<not> success r \<and> attempts r = 3
           \<and> length (filter is_Validate tr) = 3 \<and> length (filter is_Invoke tr) = 2
           \<and> map is_Invoke tr = [False, True, False, True, False]"
proof -
  let ?R = "validate_kg (shacl ext) (validator_tool self) p"
  let ?q1 = "ODRL_REGENERATION_PROMPT_format (utcnow_date ext 0) (to_learning_prompt (?R d))"
  have bad0: "\<not> is_valid (?R d)"
    using first by (simp add: validate_kg_valid_iff)
  obtain t1 where t1: "llm_invoke ext 0 ?q1 = Inr t1"
    using answers by blast
  have bad1: "\<not> is_valid (?R (clean_turtle t1))"
    using again [OF t1] by (simp add: validate_kg_valid_iff)
  let ?q2 = "ODRL_REGENERATION_PROMPT_format (utcnow_date ext (Suc 0))
               (to_learning_prompt (?R (clean_turtle t1)))"
  obtain t2 where t2: "llm_invoke ext (Suc 0) ?q2 = Inr t2"
    using answers by blast
  have bad2: "\<not> is_valid (?R (clean_turtle t2))"
    using again [OF t2] by (simp add: validate_kg_valid_iff)
  show ?thesis
    by (simp add: validate_and_regenerate_def attempt_loop_step attempt_loop_last
        regenerate_invalid bad0 bad1 bad2 t1 t2 Let_def)
qed

theorem ceiling_three_never_conforming_witness:
  "\<exists>r tr. validate_and_regenerate ex_stuck ex_agent ex_policy_text ex_doc_no_uid 3 = (Inr r, tr)
           \<and> \<not> success r \<and> attempts r = 3
           \<and> length (filter is_Validate tr) = 3 \<and> length (filter is_Invoke tr) = 2
           \<and> map is_Invoke tr = [False, True, False, True, False]"
  by (rule ceiling_three_never_conforming)
    (auto simp add: ex_stuck_def ex_agent_def ex_report_no_uid clean_turtle_no_uid)

subsection \<open>A document that does not parse\<close>

lemma ex_report_unparsable:
  "validate_kg (shacl ex_unparsable) ODRLValidationTool_init u kg =
     \<lparr>user_text = u, generated_kg = kg, is_valid = False, issues = ex_parse_issues\<rparr>"
  by (simp add: validate_kg_def ODRLValidationTool_init_def Let_def run_shacl_validation_def
      ex_unparsable_def PolicyStructureValidator_def ConstraintStructureValidator_def
      PolicyStructure_issue_def ConstraintStructure_issue_def dict_get_def ex_parse_issues_def)

lemma clean_turtle_not_turtle: "clean_turtle ''not turtle'' = ''not turtle''"
  by (simp add: clean_turtle_def Let_def py_split_def py_strip_def py_lstrip_def py_rstrip_def py_whitespace_def)

text \<open>
  C8, as the claim states it, fails: when the engine raises on every call, the error is
  turned into two ordinary issues, nothing is raised to the caller (the call returns a
  result), and the session goes on retrying: two invocations of the language model and
  three validation passes at ceiling 3.
\<close>

theorem unparsable_document_retried:
  "issues (validate_kg (shacl ex_unparsable) (validator_tool ex_agent) ex_policy_text ''not turtle'')
     = ex_parse_issues
   \<and> \<not> isl (fst (validate_and_regenerate ex_unparsable ex_agent ex_policy_text ''not turtle'' 3))
   \<and> map is_Invoke (snd (validate_and_regenerate ex_unparsable ex_agent ex_policy_text ''not turtle'' 3))
     = [False, True, False, True, False]"
proof -
  have llm: "\<And>n q. llm_invoke ex_unparsable n q = Inr ''not turtle''"
    by (simp add: ex_unparsable_def)
  show ?thesis
    by (simp add: validate_and_regenerate_def attempt_loop_step attempt_loop_last
        regenerate_invalid ex_agent_def ex_report_unparsable clean_turtle_not_turtle llm Let_def)
qed

text \<open>
  C8, amended. When the engine raises for a document (it does not parse, or the SHACL
  step fails), \<open>_run_shacl_validation\<close> catches the error, and each of the two registered
  validators reports it as one ordinary issue whose text is \<open>Validation error:\<close> followed by
  the error's message. The report is invalid, nothing is propagated to the caller, and the
  loop treats the pass as any failed validation: at the ceiling it returns the failure
  result, below the ceiling it goes on to \<open>regenerate\<close> and the next attempt.
\<close>

theorem shacl_error_reported_as_issues:
  assumes tool: "validator_tool self = ODRLValidationTool_init"
    and ea: "shacl ext kg PolicyStructure_shape_ttl = Inl ea"
    and eb: "shacl ext kg ConstraintStructure_shape_ttl = Inl eb"
  shows "let report = \<lparr>user_text = u, generated_kg = kg, is_valid = False,
             issues = [\<lparr>issue_type = ''Policy Structure Error'', focus_node = '''',
                        property_path = '''', actual_value = '''',
                        constraint_violated = ''Validation error: '' @ exn_str ea,
                        severity = ''Violation''\<rparr>,
                       \<lparr>issue_type = ''Constraint Structure Error'', focus_node = '''',
                        property_path = '''', actual_value = '''',
                        constraint_violated = ''Validation error: '' @ exn_str eb,
                        severity = ''Violation''\<rparr>]\<rparr>;
             i = \<lparr>info_attempt = a, info_is_valid = False, info_issues = issues report,
                  info_odrl_turtle = kg\<rparr>
         in validate_kg (shacl ext) (validator_tool self) u kg = report
          \<and> (a = m \<longrightarrow>
               attempt_loop ext self u m a kg all info tr =
                 (Inr \<lparr>success = False, final_odrl = kg, attempts = m,
                        all_attempts = all @ [i], final_issues = Some (issues report)\<rparr>,
                  tr @ [Validate kg]))
          \<and> (a < m \<longrightarrow>
               attempt_loop ext self u m a kg all info tr =
                 (case regenerate ext self \<lparr>vr_is_valid = False, validation_report = report\<rparr>
                         (tr @ [Validate kg]) of
                    (Inl e, tr2) \<Rightarrow> (Inl e, tr2)
                  | (Inr rr, tr2) \<Rightarrow>
                      attempt_loop ext self u m (a + 1) (odrl_turtle rr) (all @ [i]) (Some i) tr2))"
proof -
  have report: "validate_kg (shacl ext) (validator_tool self) u kg =
      \<lparr>user_text = u, generated_kg = kg, is_valid = False,
       issues = [\<lparr>issue_type = ''Policy Structure Error'', focus_node = '''',
                  property_path = '''', actual_value = '''',
                  constraint_violated = ''Validation error: '' @ exn_str ea,
                  severity = ''Violation''\<rparr>,
                 \<lparr>issue_type = ''Constraint Structure Error'', focus_node = '''',
                  property_path = '''', actual_value = '''',
                  constraint_violated = ''Validation error: '' @ exn_str eb,
                  severity = ''Violation''\<rparr>]\<rparr>"
    by (simp add: tool validate_kg_def ODRLValidationTool_init_def Let_def
        run_shacl_validation_def ea eb PolicyStructureValidator_def
        ConstraintStructureValidator_def PolicyStructure_issue_def
        ConstraintStructure_issue_def dict_get_def)
  then have bad: "\<not> is_valid (validate_kg (shacl ext) (validator_tool self) u kg)"
    by simp
  note at_ceiling = attempt_loop_last [OF bad, unfolded report]
  note below = attempt_loop_step [OF _ bad, unfolded report Let_def]
  show ?thesis
    unfolding Let_def by (simp add: report at_ceiling below)
qed

theorem shacl_error_reported_as_issues_witness:
  "validate_kg (shacl ex_unparsable) (validator_tool ex_agent) ex_policy_text ''not turtle'' =
     \<lparr>user_text = ex_policy_text, generated_kg = ''not turtle'', is_valid = False,
      issues = ex_parse_issues\<rparr>
   \<and> attempt_loop ex_unparsable ex_agent ex_policy_text 1 1 ''not turtle'' [] None [] =
     (Inr \<lparr>success = False, final_odrl = ''not turtle'', attempts = 1,
            all_attempts = [\<lparr>info_attempt = 1, info_is_valid = False,
                             info_issues = ex_parse_issues, info_odrl_turtle = ''not turtle''\<rparr>],
            final_issues = Some ex_parse_issues\<rparr>,
      [Validate ''not turtle''])"
  using shacl_error_reported_as_issues
    [where self = ex_agent and ext = ex_unparsable and kg = "''not turtle''"
       and ea = "Exception ''Bad syntax at line 1''" and eb = "Exception ''Bad syntax at line 1''"
       and a = 1 and m = 1 and u = ex_policy_text and all = "[]" and info = None and tr = "[]"]
  by (simp add: ex_agent_def ex_unparsable_def ex_parse_issues_def Let_def)


section \<open>Properties of the conflict taxonomy\<close>

text \<open>
  C6. The claim does not hold of the table: \<open>CONFLICT_STRATEGIES\<close> has entries for eight
  of the fourteen members of \<open>ConflictType\<close>. The lookup at the head of
  \<open>get_detection_prompt_for_conflict_type\<close>, which takes any member, raises
  \<open>StopIteration\<close> for \<open>SPATIAL_OVERLAP\<close> and for the five other members without an entry.
  The entries that exist are one per type, and their priorities are pairwise distinct.
\<close>

theorem strategy_lookup_fails_for_uncovered_types:
  "get_detection_prompt_strategy SPATIAL_OVERLAP = Inl StopIteration
   \<and> filter (\<lambda>ct. get_detection_prompt_strategy ct = Inl StopIteration) ConflictType_members
     = [SPATIAL_OVERLAP, TEMPORAL_IMPOSSIBLE, ACTION_SUBSUMPTION, ACTION_CONFLICT,
        WORKFLOW_CYCLE, PARTY_INCONSISTENCY]
   \<and> distinct (map conflict_type CONFLICT_STRATEGIES)
   \<and> distinct (map detection_order CONFLICT_STRATEGIES)"
  by (simp add: get_detection_prompt_strategy_def CONFLICT_STRATEGIES_def
      ConflictType_members_def)

lemma find_sorted_least:
  "sorted (map f ys) \<Longrightarrow> find P ys = Some s \<Longrightarrow>
   s \<in> set ys \<and> P s \<and> (\<forall>t\<in>set ys. P t \<longrightarrow> f s \<le> f t)"
  by (induction ys) (auto split: if_splits)

lemma find_sort_key_least:
  assumes "find P (sort_key f xs) = Some s"
  shows "s \<in> set xs \<and> P s \<and> (\<forall>t\<in>set xs. P t \<longrightarrow> f s \<le> f t)"
  using find_sorted_least [of f "sort_key f xs" P s] assms by simp

lemma strategies_sorted:
  "sort_key detection_order CONFLICT_STRATEGIES = CONFLICT_STRATEGIES"
  by (simp add: CONFLICT_STRATEGIES_def)

text \<open>
  C5. For the classification the spec describes, over the strategy table of the source:
  a signal that satisfies the trigger of at least one entry is classified, to the type
  of a matching entry whose \<open>detection_order\<close> no other matching entry undercuts; and a
  signal with the keyword hit \<open>urgent\<close> is classified as \<open>UNMEASURABLE\<close>, whatever else it
  matches.
\<close>

theorem classify_lowest_detection_order:
  "(list_ex (trigger_satisfied signal) CONFLICT_STRATEGIES \<longrightarrow>
      (\<exists>s\<in>set CONFLICT_STRATEGIES.
          classify signal = Inr (conflict_type s) \<and> trigger_satisfied signal s
          \<and> (\<forall>t\<in>set CONFLICT_STRATEGIES.
                trigger_satisfied signal t \<longrightarrow> detection_order s \<le> detection_order t)))
   \<and> (''urgent'' \<in> set (keyword_hits signal) \<longrightarrow> classify signal = Inr UNMEASURABLE)"
proof (intro conjI impI)
  assume "list_ex (trigger_satisfied signal) CONFLICT_STRATEGIES"
  then have "\<exists>x\<in>set (sort_key detection_order CONFLICT_STRATEGIES). trigger_satisfied signal x"
    by (simp add: list_ex_iff)
  then obtain s where
    s: "find (trigger_satisfied signal) (sort_key detection_order CONFLICT_STRATEGIES) = Some s"
    by (cases "find (trigger_satisfied signal) (sort_key detection_order CONFLICT_STRATEGIES)")
      (auto simp add: find_None_iff)
  from find_sort_key_least [OF s] s
  show "\<exists>s\<in>set CONFLICT_STRATEGIES.
          classify signal = Inr (conflict_type s) \<and> trigger_satisfied signal s
          \<and> (\<forall>t\<in>set CONFLICT_STRATEGIES.
                trigger_satisfied signal t \<longrightarrow> detection_order s \<le> detection_order t)"
    by (auto simp add: classify_def)
next
  assume "''urgent'' \<in> set (keyword_hits signal)"
  then have "list_ex (\<lambda>k. k \<in> set (keyword_patterns (hd CONFLICT_STRATEGIES)))
               (keyword_hits signal)"
    by (auto simp add: list_ex_iff CONFLICT_STRATEGIES_def)
  then have "trigger_satisfied signal (hd CONFLICT_STRATEGIES)"
    by (simp add: trigger_satisfied_def)
  then have "find (trigger_satisfied signal) CONFLICT_STRATEGIES = Some (hd CONFLICT_STRATEGIES)"
    by (simp add: CONFLICT_STRATEGIES_def)
  then show "classify signal = Inr UNMEASURABLE"
    by (simp add: classify_def strategies_sorted) (simp add: CONFLICT_STRATEGIES_def)
qed

theorem classify_lowest_detection_order_witness:
  "list_ex (trigger_satisfied ex_signal_two) CONFLICT_STRATEGIES
   \<and> classify ex_signal_two = Inr VAGUE_BROAD
   \<and> ''urgent'' \<in> set (keyword_hits ex_signal_urgent)
   \<and> classify ex_signal_urgent = Inr UNMEASURABLE"
proof -
  have m: "list_ex (trigger_satisfied ex_signal_two) CONFLICT_STRATEGIES"
    by (simp add: CONFLICT_STRATEGIES_def trigger_satisfied_def ex_signal_two_def)
  have two: "classify ex_signal_two = Inr VAGUE_BROAD"
    by (simp add: classify_def strategies_sorted)
      (simp add: CONFLICT_STRATEGIES_def trigger_satisfied_def ex_signal_two_def)
  have u: "''urgent'' \<in> set (keyword_hits ex_signal_urgent)"
    by (simp add: ex_signal_urgent_def)
  from classify_lowest_detection_order [of ex_signal_urgent] u m two
  show ?thesis by simp
qed


end
